theory Spec2Isabelle
  imports Main
begin

section \<open>JavaScript values used by the job service\<close>

text \<open>
  Strings are character lists; a character outside ASCII is written as the bytes of its
  UTF-8 encoding. A value of type \<open>string | null | undefined\<close> is a
  \<open>string option\<close>; JavaScript treats \<open>null\<close>, \<open>undefined\<close> and the empty string as
  falsy, every other string as truthy.
\<close>

definition truthy :: "string option \<Rightarrow> bool" where
  "truthy v = (case v of None \<Rightarrow> False | Some s \<Rightarrow> s \<noteq> [])"

text \<open>\<open>a || b\<close> on two such values.\<close>

definition js_or :: "string option \<Rightarrow> string option \<Rightarrow> string option" where
  "js_or a b = (if truthy a then a else b)"

text \<open>\<open>a || b\<close> where \<open>b\<close> is a string literal, so the result is a string.\<close>

definition or_default :: "string option \<Rightarrow> string \<Rightarrow> string" where
  "or_default a b = (case a of None \<Rightarrow> b | Some s \<Rightarrow> if s = [] then b else s)"

text \<open>\<open>xs[i]\<close> on an array: \<open>undefined\<close> out of range.\<close>

fun nth_opt :: "'a list \<Rightarrow> nat \<Rightarrow> 'a option" where
  "nth_opt [] i = None"
| "nth_opt (x # xs) 0 = Some x"
| "nth_opt (x # xs) (Suc i) = nth_opt xs i"

text \<open>
  \<open>s.split(c)\<close> for a one-character separator: one more part than there are
  separators, and \<open>[""]\<close> for the empty string.
\<close>

fun split :: "char \<Rightarrow> string \<Rightarrow> string list" where
  "split c [] = [[]]"
| "split c (x # xs) =
     (if x = c then [] # split c xs
      else (case split c xs of [] \<Rightarrow> [[x]] | p # ps \<Rightarrow> (x # p) # ps))"

section \<open>Download links\<close>

text \<open>
  \<^verbatim>\<open>function extractJobFolder(jobDir?: string | null) {
    if (!jobDir) return null;
    const parts = jobDir.split('/');
    return parts[1] || parts[0] || null; }\<close>
\<close>

definition extractJobFolder :: "string option \<Rightarrow> string option" where
  "extractJobFolder jobDir =
     (if \<not> truthy jobDir then None
      else let parts = split (CHR ''/'') (the jobDir)
           in js_or (nth_opt parts 1) (js_or (nth_opt parts 0) None))"

text \<open>
  \<^verbatim>\<open>export function buildDownloadUrl(jobDir, fileName) {
    const folder = extractJobFolder(jobDir);
    if (!folder) return null;
    return `${API_URL}/download/${folder}/${fileName}`; }\<close>
  The module constant \<open>API_URL\<close> is the first argument.
\<close>

definition buildDownloadUrl :: "string \<Rightarrow> string option \<Rightarrow> string \<Rightarrow> string option" where
  "buildDownloadUrl api jobDir fileName =
     (case extractJobFolder jobDir of
        None \<Rightarrow> None
      | Some folder \<Rightarrow>
          if folder = [] then None
          else Some (api @ ''/download/'' @ folder @ ''/'' @ fileName))"

text \<open>The final path segment of a token, as the specification words it.\<close>

definition finalSegment :: "string \<Rightarrow> string" where
  "finalSegment s = last (split (CHR ''/'') s)"

section \<open>Numbers in template strings\<close>

text \<open>
  \<open>`${n}`\<close> for a non-negative integer \<open>n\<close> (an array index, an HTTP status, a number
  of milliseconds) is its decimal numeral; a negative integer gets a leading minus sign.
  This is the text of a JavaScript number only for integers of magnitude below \<open>10^21\<close>
  that the number type holds exactly, which indices, statuses and the timeouts are.
\<close>

definition digit :: "nat \<Rightarrow> char" where
  "digit n = ''0123456789'' ! n"

function string_of_nat :: "nat \<Rightarrow> string" where
  "string_of_nat n =
     (if n < 10 then [digit n] else string_of_nat (n div 10) @ [digit (n mod 10)])"
  by pat_completeness auto
termination
  by (relation "measure id") auto

declare string_of_nat.simps [simp del]

definition string_of_int :: "int \<Rightarrow> string" where
  "string_of_int i = (if i < 0 then CHR ''-'' # string_of_nat (nat (- i)) else string_of_nat (nat i))"

section \<open>Data model of the job service\<close>

text \<open>
  Errors are the values the code throws: \<open>new Error(message)\<close>, and the \<open>TypeError\<close> and
  \<open>SyntaxError\<close> the runtime raises on a property read of \<open>null\<close> or on malformed JSON.
  A \<open>Date\<close> made by \<open>new Date()\<close> is its number of milliseconds since the epoch.
\<close>

datatype js_error = Error string | TypeError string | SyntaxError string

type_synonym date = int

record CrawlConfig =
  name :: string
  startUrls :: "string list"
  maxPages :: int
  maxDepth :: int
  sameDomainOnly :: bool
  includeSubdomains :: bool
  includePatterns :: "string list"
  excludePatterns :: "string list"
  useSitemap :: bool
  prioritizeSitemap :: bool
  renderJs :: bool
  timeout :: int
  retries :: int
  concurrency :: int
  requestsPerMinute :: int
  userAgent :: string
  headers :: "(string \<times> string) list"
  stripQueryParams :: bool
  canonicalOnly :: bool
  respectRobots :: bool
  overrideRobots :: bool
  extractTitle :: bool
  extractMetaDescription :: bool
  extractHeadings :: bool
  extractMainContent :: bool
  extractLinks :: bool
  extractImages :: bool
  saveRawHtml :: bool

datatype JobStatus = Queued | Running | Paused | Completed | Failed | Canceled

record Counts =
  crawled :: int
  queued :: int
  failed :: int

record CrawlJob =
  job_id :: string
  job_name :: string
  config :: CrawlConfig
  status :: JobStatus
  createdAt :: date
  startedAt :: "date option"
  finishedAt :: "date option"
  updatedAt :: "date option"
  counts :: Counts
  jobDir :: "string option"
  startUrl :: "string option"

text \<open>The values that occur in the \<open>meta\<close> field of the sample log entries.\<close>

datatype meta_value = MStr string | MNum int | MList "string list"

text \<open>
  The timestamp of a log entry can come from a number the server sent, and
  \<open>new Date(x)\<close> is an invalid date for an \<open>x\<close> that is not finite or out of range:
  \<open>None\<close> is the invalid date.
\<close>

record JobLog =
  log_id :: string
  jobId :: string
  level :: string
  message :: string
  timestamp :: "date option"
  meta :: "(string \<times> meta_value) list option"

text \<open>
  The module-level state: \<open>let jobs\<close>, \<open>let logs\<close> (the third collection, \<open>pages\<close>, is
  only ever assigned the empty array), the job ids for which \<open>simulateCrawling\<close> has an
  interval timer registered, and the lines written with \<open>console.warn\<close>.
\<close>

record store =
  jobs :: "CrawlJob list"
  logs :: "JobLog list"
  intervals :: "string list"
  console :: "string list"

text \<open>\<open>jobs.find(j => j.id === jobId)\<close>: the first job with that id.\<close>

definition findJob :: "CrawlJob list \<Rightarrow> string \<Rightarrow> CrawlJob option" where
  "findJob js i = find (\<lambda>j. job_id j = i) js"

text \<open>
  The object returned by \<open>find\<close> is mutated in place: in the list, the first job with
  that id is replaced by its updated value.
\<close>

fun updateJob :: "string \<Rightarrow> (CrawlJob \<Rightarrow> CrawlJob) \<Rightarrow> CrawlJob list \<Rightarrow> CrawlJob list" where
  "updateJob i f [] = []"
| "updateJob i f (j # js) = (if job_id j = i then f j # js else j # updateJob i f js)"

section \<open>Configuration\<close>

text \<open>
  \<^verbatim>\<open>const API_URL = (import.meta.env.VITE_API_URL || 'http://127.0.0.1:8000').replace(/\/$/, '');
  const USE_MOCK = false;\<close>
  The environment variable is an argument. The operations below take the mock flag as
  an argument too, so that both of their branches can be stated; \<open>USE_MOCK\<close> is the
  value the source fixes.
\<close>

definition stripTrailingSlash :: "string \<Rightarrow> string" where
  "stripTrailingSlash s = (if s \<noteq> [] \<and> last s = CHR ''/'' then butlast s else s)"

definition API_URL :: "string option \<Rightarrow> string" where
  "API_URL env = stripTrailingSlash (or_default env ''http://127.0.0.1:8000'')"

definition USE_MOCK :: bool where
  "USE_MOCK = False"

section \<open>The remote service as seen by the job service\<close>

text \<open>
  What \<open>await fetch(...)\<close> gives: the promise rejects, or it resolves to a response with
  its \<open>ok\<close> flag, status, status text and the outcomes of \<open>res.text()\<close> and \<open>res.json()\<close>
  (each of which may reject).
\<close>

datatype 'a fetched =
    Rejected js_error
  | Response (ok: bool) (resp_status: nat) (statusText: string)
             (body_text: "js_error + string") (body_json: "js_error + 'a")

text \<open>\<open>type BackendAsyncStart = { job_id: string }\<close>; the field may be missing.\<close>

record BackendAsyncStart =
  start_job_id :: "string option"

record BackendStatus =
  st_running :: bool
  st_done :: bool
  st_error :: "string option"

record BackendCounts =
  b_crawled :: "int option"

text \<open>
  \<open>type BackendJobInfo\<close>. The code reads \<open>info.counts?.crawled\<close> and \<open>info.status?.done\<close>,
  so \<open>counts\<close> and \<open>status\<close> may be missing.
\<close>

record BackendJobInfo =
  info_id :: string
  info_name :: string
  created_at :: int
  info_status :: "BackendStatus option"
  info_counts :: "BackendCounts option"
  info_jobDir :: "string option"
  info_startUrl :: "string option"

text \<open>
  One element of \<open>BackendJobLogs.logs\<close>. Its \<open>ts\<close> is a JavaScript number; the type
  \<open>'n\<close> of these numbers is left open.
\<close>

record 'n BackendLog =
  ts :: 'n
  b_level :: "string option"
  b_message :: string

section \<open>Mock helpers\<close>

text \<open>
  \<open>generateId()\<close> draws on \<open>Math.random\<close> and \<open>new Date()\<close> reads the clock. An operation
  takes the results of its successive calls as functions \<open>ids\<close> and \<open>reads\<close>: \<open>ids k\<close> is
  the result of the \<open>k\<close>-th call of \<open>generateId\<close> the operation makes, \<open>reads k\<close> the
  \<open>k\<close>-th reading of the clock, both counted from 0.
\<close>

definition mk :: "date \<Rightarrow> string \<Rightarrow> string \<Rightarrow> int \<Rightarrow> string \<Rightarrow> string
    \<Rightarrow> (string \<times> meta_value) list option \<Rightarrow> JobLog" where
  "mk base i jid n lv msg m =
     \<lparr>log_id = i, jobId = jid, level = lv, message = msg, timestamp = Some (base - n * 3000),
      meta = m\<rparr>"

definition createSampleLogs :: "(nat \<Rightarrow> string) \<Rightarrow> date \<Rightarrow> string \<Rightarrow> JobLog list" where
  "createSampleLogs ids base jid =
     [mk base (ids 0) jid 0 ''info'' ''Starting crawl job''
        (Some [(''startUrls'', MList [''https://example.com''])]),
      mk base (ids 1) jid 1 ''info'' ''Checking robots.txt''
        (Some [(''url'', MStr ''https://example.com/robots.txt'')]),
      mk base (ids 2) jid 2 ''success'' ''Found sitemap.xml''
        (Some [(''sitemap'', MStr ''https://example.com/sitemap.xml''), (''urls'', MNum 45)]),
      mk base (ids 3) jid 3 ''info'' ''Discovered 15 new URLs from sitemap'' None,
      mk base (ids 4) jid 4 ''success'' ''Successfully crawled: https://example.com/''
        (Some [(''status'', MNum 200), (''size'', MNum 12345), (''links'', MNum 8)]),
      mk base (ids 5) jid 5 ''warn'' ''Rate limiting detected, backing off''
        (Some [(''retryAfter'', MNum 5)]),
      mk base (ids 6) jid 6 ''error'' ''Failed to crawl: https://example.com/broken''
        (Some [(''status'', MNum 404), (''error'', MStr ''Not Found'')])]"

text \<open>
  \<open>simulateCrawling(jobId)\<close>, its synchronous part: nothing unless the job exists and is
  running; otherwise an interval timer is registered for it. The timer's callback runs
  later and is not part of the call.
\<close>

definition simulateCrawling :: "string \<Rightarrow> store \<Rightarrow> store" where
  "simulateCrawling i w =
     (case findJob (jobs w) i of
        None \<Rightarrow> w
      | Some job \<Rightarrow> if status job \<noteq> Running then w else w\<lparr>intervals := intervals w @ [i]\<rparr>)"

section \<open>The service\<close>

text \<open>
  The operations of \<open>JobService\<close> in its asynchronous variant, the one that starts a job
  with \<open>/crawl_async/\<close> and then polls \<open>/jobs/{id}\<close>. Each takes the answer of the
  remote service as an argument and the store before the call, and returns the store
  after it where it assigns to the store.
\<close>

subsection \<open>createJob\<close>

text \<open>
  Mock branch: a queued job with a generated id is pushed to the end of \<open>jobs\<close> and the
  seven sample log entries to the end of \<open>logs\<close>. Real branch: the configuration is
  posted to \<open>/crawl_async/\<close>; every throw happens before \<open>jobs.unshift(job)\<close>, the only
  assignment to the store. The result pairs what the promise settles to with the store
  after the call.
\<close>

definition createJob :: "bool \<Rightarrow> (nat \<Rightarrow> string) \<Rightarrow> (nat \<Rightarrow> date) \<Rightarrow> BackendAsyncStart option fetched
    \<Rightarrow> CrawlConfig \<Rightarrow> store \<Rightarrow> (js_error + CrawlJob) \<times> store" where
  "createJob mock ids reads res cfg w =
     (if mock then
        let job = \<lparr>job_id = ids 0, job_name = name cfg, config = cfg, status = Queued,
                   createdAt = reads 0, startedAt = None, finishedAt = None, updatedAt = None,
                   counts = \<lparr>crawled = 0, queued = min (maxPages cfg) 20, failed = 0\<rparr>,
                   jobDir = None, startUrl = None\<rparr>
        in (Inr job,
            w\<lparr>jobs := jobs w @ [job],
              logs := logs w @ createSampleLogs (\<lambda>k. ids (Suc k)) (reads 1) (job_id job)\<rparr>)
      else
        (case res of
           Rejected e \<Rightarrow> (Inl e, w)
         | Response rok rstatus rtext txt js \<Rightarrow>
             if \<not> rok then
               (Inl (Error (''Backend error ('' @ string_of_nat rstatus @ ''): '' @
                      or_default (case txt of Inl _ \<Rightarrow> Some [] | Inr t \<Rightarrow> Some t) rtext)), w)
             else
               (case js of
                  Inl e \<Rightarrow> (Inl e, w)
                | Inr None \<Rightarrow> (Inl (TypeError ''Cannot read properties of null''), w)
                | Inr (Some d) \<Rightarrow>
                    if \<not> truthy (start_job_id d) then (Inl (Error ''No job_id from backend''), w)
                    else
                      let now = reads 0;
                          job = \<lparr>job_id = the (start_job_id d), job_name = or_default (Some (name cfg)) ''job'',
                                 config = cfg, status = Running,
                                 createdAt = now, startedAt = Some now, finishedAt = None,
                                 updatedAt = None,
                                 counts = \<lparr>crawled = 0, queued = 0, failed = 0\<rparr>,
                                 jobDir = None, startUrl = None\<rparr>
                      in (Inr job, w\<lparr>jobs := job # jobs w\<rparr>))))"

text \<open>
  The remote submission succeeds when the request is answered with an ok (2xx) response
  whose body carries a job identifier.
\<close>

definition submissionSucceeds :: "BackendAsyncStart option fetched \<Rightarrow> bool" where
  "submissionSucceeds res =
     (case res of
        Rejected e \<Rightarrow> False
      | Response rok rstatus rtext txt js \<Rightarrow>
          rok \<and> (case js of Inl e \<Rightarrow> False | Inr None \<Rightarrow> False
                 | Inr (Some d) \<Rightarrow> truthy (start_job_id d)))"

subsection \<open>performJobAction\<close>

datatype action = Start | Pause | Resume | Cancel

definition action_name :: "action \<Rightarrow> string" where
  "action_name a = (case a of Start \<Rightarrow> ''start'' | Pause \<Rightarrow> ''pause''
                    | Resume \<Rightarrow> ''resume'' | Cancel \<Rightarrow> ''cancel'')"

definition pushLog :: "string \<Rightarrow> string \<Rightarrow> string \<Rightarrow> string \<Rightarrow> date \<Rightarrow> store \<Rightarrow> store" where
  "pushLog i jid lv msg now w =
     w\<lparr>logs := logs w @ [\<lparr>log_id = i, jobId = jid, level = lv, message = msg,
                            timestamp = Some now, meta = None\<rparr>]\<rparr>"

text \<open>
  Mock branch: the chain of \<open>if / else if\<close> on the action and the current status, in the
  order of the source; a pair that matches no branch falls through to \<open>return\<close>. Real
  branch: a console warning and nothing else.
\<close>

definition performJobAction :: "bool \<Rightarrow> (nat \<Rightarrow> string) \<Rightarrow> (nat \<Rightarrow> date) \<Rightarrow> string \<Rightarrow> action
    \<Rightarrow> store \<Rightarrow> (js_error + unit) \<times> store" where
  "performJobAction mock ids reads i a w =
     (if mock then
        (case findJob (jobs w) i of
           None \<Rightarrow> (Inl (Error ''Job not found''), w)
         | Some job \<Rightarrow>
             let now = reads 0 in
             if a = Start \<and> status job = Queued then
               (Inr (),
                simulateCrawling i
                  (pushLog (ids 0) i ''info'' ''Crawl job started'' now
                     (w\<lparr>jobs := updateJob i
                        (\<lambda>j. j\<lparr>status := Running, startedAt := Some now, updatedAt := Some now\<rparr>)
                        (jobs w)\<rparr>)))
             else if a = Pause \<and> status job = Running then
               (Inr (),
                pushLog (ids 0) i ''warn'' ''Crawl job paused'' now
                  (w\<lparr>jobs := updateJob i
                     (\<lambda>j. j\<lparr>status := Paused, updatedAt := Some now\<rparr>) (jobs w)\<rparr>))
             else if a = Resume \<and> status job = Paused then
               (Inr (),
                simulateCrawling i
                  (pushLog (ids 0) i ''info'' ''Crawl job resumed'' now
                     (w\<lparr>jobs := updateJob i
                        (\<lambda>j. j\<lparr>status := Running, updatedAt := Some now\<rparr>) (jobs w)\<rparr>)))
             else if a = Cancel \<and> status job \<in> {Queued, Running, Paused} then
               (Inr (),
                pushLog (ids 0) i ''error'' ''Crawl job canceled'' now
                  (w\<lparr>jobs := updateJob i
                     (\<lambda>j. j\<lparr>status := Canceled, finishedAt := Some now, updatedAt := Some now\<rparr>)
                     (jobs w)\<rparr>))
             else (Inr (), w))
      else
        (Inr (),
         w\<lparr>console := console w @ [''Job control not supported by backend yet: '' @ action_name a]\<rparr>))"

subsection \<open>getJobInfo and syncJobFromBackend\<close>

text \<open>
  \<open>getJobInfo\<close>: \<open>null\<close> when the fetch rejects, the response is not ok or the body does
  not parse; otherwise the parsed body, which may itself be \<open>null\<close>.
\<close>

definition getJobInfo :: "BackendJobInfo option fetched \<Rightarrow> BackendJobInfo option" where
  "getJobInfo res =
     (case res of
        Rejected e \<Rightarrow> None
      | Response rok rstatus rtext txt js \<Rightarrow>
          if \<not> rok then None else (case js of Inl e \<Rightarrow> None | Inr v \<Rightarrow> v))"

definition reportsDone :: "BackendJobInfo \<Rightarrow> bool" where
  "reportsDone info = (case info_status info of None \<Rightarrow> False | Some s \<Rightarrow> st_done s)"

definition reportsError :: "BackendJobInfo \<Rightarrow> bool" where
  "reportsError info = (case info_status info of None \<Rightarrow> False | Some s \<Rightarrow> truthy (st_error s))"

text \<open>
  The assignments \<open>syncJobFromBackend\<close> makes to the job it found, in the order of the
  source. \<open>new Date()\<close> is evaluated once for \<open>updatedAt\<close> and once more in each of the
  two status branches that is taken.
\<close>

definition mergeInfo :: "(nat \<Rightarrow> date) \<Rightarrow> BackendJobInfo \<Rightarrow> CrawlJob \<Rightarrow> CrawlJob" where
  "mergeInfo reads info local =
     (let j1 = local\<lparr>counts := (counts local)\<lparr>crawled :=
                   (case info_counts info of
                      None \<Rightarrow> crawled (counts local)
                    | Some c \<Rightarrow> (case b_crawled c of
                                  None \<Rightarrow> crawled (counts local)
                                | Some n \<Rightarrow> n))\<rparr>,
                 updatedAt := Some (reads 0)\<rparr>;
          j2 = (if reportsDone info
                then j1\<lparr>status := Completed, finishedAt := Some (reads 1)\<rparr> else j1);
          j3 = (if reportsError info
                then j2\<lparr>status := Failed,
                        finishedAt := Some (reads (if reportsDone info then 2 else 1))\<rparr>
                else j2);
          j4 = (if truthy (info_jobDir info)
                then j3\<lparr>jobDir := Some (''output_crawler/'' @ the (info_jobDir info))\<rparr> else j3)
      in if truthy (info_startUrl info) then j4\<lparr>startUrl := info_startUrl info\<rparr> else j4)"

definition syncJobFromBackend :: "(nat \<Rightarrow> date) \<Rightarrow> BackendJobInfo option fetched \<Rightarrow> string
    \<Rightarrow> store \<Rightarrow> store" where
  "syncJobFromBackend reads res i w =
     (case getJobInfo res of
        None \<Rightarrow> w
      | Some info \<Rightarrow>
          (case findJob (jobs w) i of
             None \<Rightarrow> w
           | Some local \<Rightarrow> w\<lparr>jobs := updateJob i (mergeInfo reads info) (jobs w)\<rparr>))"

subsection \<open>getJobLogs\<close>

text \<open>\<open>xs.map((x, idx) => ...)\<close>: the elements with their positions.\<close>

fun indexed :: "nat \<Rightarrow> 'a list \<Rightarrow> (nat \<times> 'a) list" where
  "indexed k [] = []"
| "indexed k (x # xs) = (k, x) # indexed (Suc k) xs"

text \<open>
  The callback of \<open>data.logs.map\<close>. The two things it does with the number \<open>l.ts\<close> are
  arguments: \<open>numText\<close> is the text the number has in a template string, and \<open>toDate\<close>
  is \<open>new Date(l.ts * 1000)\<close>.
\<close>

definition mapLog :: "('n \<Rightarrow> string) \<Rightarrow> ('n \<Rightarrow> date option) \<Rightarrow> string \<Rightarrow> nat \<times> 'n BackendLog
    \<Rightarrow> JobLog" where
  "mapLog numText toDate i p =
     (case p of (idx, l) \<Rightarrow>
        \<lparr>log_id = i @ ''-'' @ string_of_nat idx @ ''-'' @ numText (ts l),
         jobId = i,
         level = (case b_level l of None \<Rightarrow> ''info'' | Some lv \<Rightarrow> lv),
         message = b_message l,
         timestamp = toDate (ts l),
         meta = None\<rparr>)"

text \<open>
  \<open>mapped.sort((a, b) => a.timestamp.getTime() - b.timestamp.getTime())\<close>: a stable
  sort by time when every date is valid. With an invalid date the comparator yields
  \<open>NaN\<close> and the order is whatever the engine's sort makes of it: \<open>engineSort\<close>.
\<close>

definition sortByTime :: "(JobLog list \<Rightarrow> JobLog list) \<Rightarrow> JobLog list \<Rightarrow> JobLog list" where
  "sortByTime engineSort xs =
     (if list_all (\<lambda>x. timestamp x \<noteq> None) xs then sort_key (\<lambda>x. the (timestamp x)) xs
      else engineSort xs)"

text \<open>
  The body's \<open>logs\<close> array is \<open>None\<close> when the body has none: the \<open>TypeError\<close> of
  \<open>data.logs.map\<close> is caught like every other failure and the call returns \<open>[]\<close> with
  the store as it was. On success the cached entries of other jobs are kept, those of
  this job are dropped, and the mapped entries are appended in the order fetched; the
  returned array is the mapped one, sorted.
\<close>

definition getJobLogs :: "('n \<Rightarrow> string) \<Rightarrow> ('n \<Rightarrow> date option) \<Rightarrow> (JobLog list \<Rightarrow> JobLog list)
    \<Rightarrow> 'n BackendLog list option fetched \<Rightarrow> string \<Rightarrow> store \<Rightarrow> JobLog list \<times> store" where
  "getJobLogs numText toDate engineSort res i w =
     (case res of
        Rejected e \<Rightarrow> ([], w)
      | Response rok rstatus rtext txt js \<Rightarrow>
          if \<not> rok then ([], w)
          else (case js of
                  Inl e \<Rightarrow> ([], w)
                | Inr None \<Rightarrow> ([], w)
                | Inr (Some ls) \<Rightarrow>
                    let mapped = map (mapLog numText toDate i) (indexed 0 ls)
                    in (sortByTime engineSort mapped,
                        w\<lparr>logs := filter (\<lambda>x. jobId x \<noteq> i) (logs w) @ mapped\<rparr>)))"

subsection \<open>exportJob\<close>

text \<open>
  \<open>formatToFilename\<close> is an object literal, so besides its three own keys it inherits
  the properties of \<open>Object.prototype\<close>: \<open>f in formatToFilename\<close> holds for those names
  too, and \<open>formatToFilename[f]\<close> is then the inherited member. \<open>buildDownloadUrl\<close> puts
  its \<open>fileName\<close> into a template string; \<open>protoText f\<close> stands for the text that an
  inherited member \<open>f\<close> turns into there.
\<close>

definition formatToFilename :: "(string \<times> string) list" where
  "formatToFilename =
     [(''json'', ''all_results.json''), (''csv'', ''all_results.csv''),
      (''markdown-book'', ''all_results.md'')]"

definition objectPrototypeKeys :: "string list" where
  "objectPrototypeKeys =
     [''constructor'', ''hasOwnProperty'', ''isPrototypeOf'', ''propertyIsEnumerable'',
      ''toLocaleString'', ''toString'', ''valueOf'', ''__proto__'',
      ''__defineGetter__'', ''__defineSetter__'', ''__lookupGetter__'', ''__lookupSetter__'']"

definition inFormatToFilename :: "string \<Rightarrow> bool" where
  "inFormatToFilename f = (f \<in> set (map fst formatToFilename) \<or> f \<in> set objectPrototypeKeys)"

definition fileNameText :: "(string \<Rightarrow> string) \<Rightarrow> string \<Rightarrow> string" where
  "fileNameText protoText f =
     (case map_of formatToFilename f of Some fn \<Rightarrow> fn | None \<Rightarrow> protoText f)"

text \<open>
  Mock branch: one object URL per requested format, \<open>blobUrl k\<close> being the result of the
  \<open>k\<close>-th call of \<open>URL.createObjectURL\<close>. Real branch: the requested formats are
  filtered with \<open>in\<close>, each is mapped to a link or to \<open>null\<close>, the \<open>null\<close>s are removed,
  and an empty result is an error. The store is only read.
\<close>

definition exportJob :: "bool \<Rightarrow> string \<Rightarrow> (string \<Rightarrow> string) \<Rightarrow> (nat \<Rightarrow> string) \<Rightarrow> store
    \<Rightarrow> string \<Rightarrow> string list \<Rightarrow> js_error + (string \<times> string) list" where
  "exportJob mock api protoText blobUrl w i formats =
     (case findJob (jobs w) i of
        None \<Rightarrow> Inl (Error ''Job not found'')
      | Some job \<Rightarrow>
          if mock then Inr (map (\<lambda>(k, f). (f, blobUrl k)) (indexed 0 formats))
          else
            let requested = filter inFormatToFilename formats;
                links = List.map_filter
                  (\<lambda>f. case buildDownloadUrl api (jobDir job) (fileNameText protoText f) of
                         None \<Rightarrow> None
                       | Some url \<Rightarrow> Some (f, url))
                  requested
            in if links = [] then Inl (Error ''No download links available for requested formats.'')
               else Inr links)"

section \<open>The transport helper postJSON\<close>

text \<open>
  \<^verbatim>\<open>const BASE_URL = (import.meta.env.VITE_API_URL || '').replace(/\/$/, '');\<close>
\<close>

definition BASE_URL :: "string option \<Rightarrow> string" where
  "BASE_URL env = stripTrailingSlash (or_default env [])"

text \<open>
  A promise is described by when and how it settles, in milliseconds after it was
  created. \<open>withTimeout(p, ms)\<close> settles like \<open>p\<close> if \<open>p\<close> settles before the timer of
  \<open>ms\<close> milliseconds fires, and rejects with the timeout error otherwise.
\<close>

datatype 'a promise = Never | RejectsAt nat js_error | ResolvesAt nat 'a

definition timeoutError :: "nat \<Rightarrow> js_error" where
  "timeoutError ms = Error (''Timeout after '' @ string_of_nat ms @ ''ms'')"

definition withTimeout :: "'a promise \<Rightarrow> nat \<Rightarrow> js_error + 'a" where
  "withTimeout p ms =
     (case p of
        Never \<Rightarrow> Inl (timeoutError ms)
      | RejectsAt t e \<Rightarrow> if t < ms then Inl e else Inl (timeoutError ms)
      | ResolvesAt t v \<Rightarrow> if t < ms then Inr v else Inl (timeoutError ms))"

record reply =
  r_ok :: bool
  r_status :: nat
  r_statusText :: string
  r_text :: "js_error + string"

text \<open>The en dash of the HTTP error message, in UTF-8.\<close>

definition en_dash :: string where
  "en_dash = [CHR 0xE2, CHR 0x80, CHR 0x93]"

text \<open>
  The body of the \<open>try\<close> block for one attempt: the fetch under its timeout, the body
  text, the parse whose failure is swallowed (\<open>parse\<close> is \<open>JSON.parse\<close>, \<open>None\<close> where
  it throws; the data is \<open>undefined\<close> for an empty or malformed body), and the throw
  on a response that is not ok.
\<close>

definition attemptOnce :: "(string \<Rightarrow> 'j option) \<Rightarrow> reply promise \<Rightarrow> nat \<Rightarrow> js_error + 'j option" where
  "attemptOnce parse p ms =
     (case withTimeout p ms of
        Inl e \<Rightarrow> Inl e
      | Inr resp \<Rightarrow>
          (case r_text resp of
             Inl e \<Rightarrow> Inl e
           | Inr txt \<Rightarrow>
               let data = (if txt \<noteq> [] then parse txt else None)
               in if \<not> r_ok resp then
                    Inl (Error (''HTTP '' @ string_of_nat (r_status resp) @ '' '' @ r_statusText resp
                           @ '' '' @ en_dash @ '' '' @ (if txt \<noteq> [] then txt else ''(empty)'')))
                  else Inr data))"

text \<open>What the call does on the way: requests with their timeouts, and waits.\<close>

datatype 'b net_event = Request string 'b nat | Wait nat

text \<open>
  \<^verbatim>\<open>for (let attempt = 1; attempt <= 2; attempt++) { try { ...; return data }
     catch (e) { lastErr = e; await new Promise(r => setTimeout(r, 1500)); } }
  throw lastErr || new Error('Load failed');\<close>
  \<open>net attempt\<close> is the fetch promise of that attempt.
\<close>

function postLoop :: "(string \<Rightarrow> 'j option) \<Rightarrow> (nat \<Rightarrow> reply promise) \<Rightarrow> string \<Rightarrow> 'b
    \<Rightarrow> nat \<Rightarrow> js_error option \<Rightarrow> (js_error + 'j option) \<times> 'b net_event list" where
  "postLoop parse net url body attempt lastErr =
     (if attempt \<le> 2 then
        (let ms = (if attempt = 1 then 65000 else 90000) in
         case attemptOnce parse (net attempt) ms of
           Inr data \<Rightarrow> (Inr data, [Request url body ms])
         | Inl e \<Rightarrow>
             (case postLoop parse net url body (Suc attempt) (Some e) of
                (r, evs) \<Rightarrow> (r, Request url body ms # Wait 1500 # evs)))
      else (Inl (case lastErr of None \<Rightarrow> Error ''Load failed'' | Some e \<Rightarrow> e), []))"
  by pat_completeness auto
termination
  by (relation "measure (\<lambda>(parse, net, url, body, attempt, lastErr). 3 - attempt)") auto

declare postLoop.simps [simp del]

text \<open>
  \<^verbatim>\<open>const url = `${BASE_URL}${path.startsWith('/') ? path : '/' + path}`;\<close>
\<close>

definition postUrl :: "string \<Rightarrow> string \<Rightarrow> string" where
  "postUrl base path = base @ (if take 1 path = ''/'' then path else ''/'' @ path)"

definition postJSON :: "string \<Rightarrow> (string \<Rightarrow> 'j option) \<Rightarrow> (nat \<Rightarrow> reply promise) \<Rightarrow> string \<Rightarrow> 'b
    \<Rightarrow> (js_error + 'j option) \<times> 'b net_event list" where
  "postJSON base parse net path body =
     (if base = [] then (Inl (Error ''VITE_API_URL is not set''), [])
      else postLoop parse net (postUrl base path) body 1 None)"

text \<open>
  The outcome of one attempt in the words of the specification, on the promise of the
  fetch and the timeout alone. An attempt is a failure when the fetch rejects before the
  timer fires (a network error), when the fetch has not settled by then (a timeout),
  when the body of the response cannot be read, or when the response is not 2xx; the
  error it fails with is the rejection's, the timeout error, the body's, or the HTTP error
  with the status, the status text and the body text. Otherwise the attempt succeeds and
  yields the parsed JSON body, \<open>undefined\<close> for a body that is empty or does not parse.
\<close>

definition attemptFailsWith :: "reply promise \<Rightarrow> nat \<Rightarrow> js_error \<Rightarrow> bool" where
  "attemptFailsWith p ms e =
     (case p of
        Never \<Rightarrow> e = Error (''Timeout after '' @ string_of_nat ms @ ''ms'')
      | RejectsAt t err \<Rightarrow>
          e = (if t < ms then err else Error (''Timeout after '' @ string_of_nat ms @ ''ms''))
      | ResolvesAt t r \<Rightarrow>
          if ms \<le> t then e = Error (''Timeout after '' @ string_of_nat ms @ ''ms'')
          else (case r_text r of
                  Inl err \<Rightarrow> e = err
                | Inr b \<Rightarrow>
                    \<not> r_ok r \<and>
                    e = Error (''HTTP '' @ string_of_nat (r_status r) @ '' '' @ r_statusText r
                          @ '' '' @ [CHR 0xE2, CHR 0x80, CHR 0x93] @ '' ''
                          @ (if b = [] then ''(empty)'' else b))))"

definition attemptYields :: "(string \<Rightarrow> 'j option) \<Rightarrow> reply promise \<Rightarrow> nat \<Rightarrow> 'j option \<Rightarrow> bool" where
  "attemptYields parse p ms v =
     (case p of
        Never \<Rightarrow> False
      | RejectsAt t err \<Rightarrow> False
      | ResolvesAt t r \<Rightarrow>
          t < ms \<and> r_ok r \<and>
          (case r_text r of Inl err \<Rightarrow> False
           | Inr b \<Rightarrow> v = (if b = [] then None else parse b)))"

section \<open>The job form's submit handler\<close>

text \<open>
  \<open>s.trim()\<close> is empty exactly when every character of \<open>s\<close> is white space or a line
  terminator. These are the six ASCII characters tab, line feed, vertical tab, form
  feed, carriage return and space; the no-break space U+00A0, two bytes in UTF-8; and
  U+1680, U+2000 to U+200A, U+2028, U+2029, U+202F, U+205F, U+3000 and U+FEFF, three
  bytes each.
\<close>

definition asciiSpace :: "char \<Rightarrow> bool" where
  "asciiSpace c = (c \<in> {CHR 0x09, CHR 0x0A, CHR 0x0B, CHR 0x0C, CHR 0x0D, CHR 0x20})"

definition space3 :: "char \<Rightarrow> char \<Rightarrow> char \<Rightarrow> bool" where
  "space3 a b c =
     ((a = CHR 0xE1 \<and> b = CHR 0x9A \<and> c = CHR 0x80)
      \<or> (a = CHR 0xE2 \<and> b = CHR 0x80
          \<and> c \<in> {CHR 0x80, CHR 0x81, CHR 0x82, CHR 0x83, CHR 0x84, CHR 0x85, CHR 0x86,
                  CHR 0x87, CHR 0x88, CHR 0x89, CHR 0x8A, CHR 0xA8, CHR 0xA9, CHR 0xAF})
      \<or> (a = CHR 0xE2 \<and> b = CHR 0x81 \<and> c = CHR 0x9F)
      \<or> (a = CHR 0xE3 \<and> b = CHR 0x80 \<and> c = CHR 0x80)
      \<or> (a = CHR 0xEF \<and> b = CHR 0xBB \<and> c = CHR 0xBF))"

fun isBlank :: "string \<Rightarrow> bool" where
  "isBlank [] = True"
| "isBlank [a] = asciiSpace a"
| "isBlank [a, b] =
     (if asciiSpace a then isBlank [b] else a = CHR 0xC2 \<and> b = CHR 0xA0)"
| "isBlank (a # b # c # r) =
     (if asciiSpace a then isBlank (b # c # r)
      else if a = CHR 0xC2 \<and> b = CHR 0xA0 then isBlank (c # r)
      else space3 a b c \<and> isBlank r)"

text \<open>\<open>s.split(/[\\/]/)\<close>: like \<open>split\<close>, at every backslash and every slash.\<close>

fun splitPath :: "string \<Rightarrow> string list" where
  "splitPath [] = [[]]"
| "splitPath (x # xs) =
     (if x = CHR ''/'' \<or> x = CHR 0x5C then [] # splitPath xs
      else (case splitPath xs of [] \<Rightarrow> [[x]] | p # ps \<Rightarrow> (x # p) # ps))"

record CrawlResult =
  r_startUrl :: string
  r_jobDir :: string
  r_pages :: int

record CrawlReply =
  reply_status :: string
  reply_results :: "CrawlResult list option"
  reply_error :: "string option"

datatype ui_event =
    Alert string
  | Post string CrawlConfig
  | ConsoleLog
  | ConsoleError
  | SetLastJob string string
  | OnSubmit CrawlConfig

text \<open>\<open>err?.message || err\<close> inside a template string.\<close>

definition errText :: "js_error \<Rightarrow> string" where
  "errText e =
     (case e of
        Error m \<Rightarrow> if m \<noteq> [] then m else ''Error''
      | TypeError m \<Rightarrow> if m \<noteq> [] then m else ''TypeError''
      | SyntaxError m \<Rightarrow> if m \<noteq> [] then m else ''SyntaxError'')"

text \<open>
  \<open>handleSubmit\<close> of the job form, as the list of things it does. \<open>post\<close> is what
  awaiting \<open>postJSON\<close> gives for a path and a body; it is asked only after both checks
  have passed. The form's \<open>onSubmit\<close> callback is what calls \<open>JobService.createJob\<close>.
\<close>

definition handleSubmit :: "(string \<Rightarrow> CrawlConfig \<Rightarrow> js_error + CrawlReply option) \<Rightarrow> CrawlConfig
    \<Rightarrow> ui_event list" where
  "handleSubmit post cfg =
     (if isBlank (name cfg) then [Alert ''Please provide a job name'']
      else if startUrls cfg = [] \<or> isBlank (hd (startUrls cfg))
      then [Alert ''Please provide at least one start URL'']
      else
        Post ''/crawl'' cfg #
        (case post ''/crawl'' cfg of
           Inl e \<Rightarrow> [ConsoleError, Alert (''Failed to connect to backend: '' @ errText e)]
         | Inr None \<Rightarrow>
             [ConsoleLog, ConsoleError,
              Alert (''Failed to connect to backend: '' @ errText (TypeError ''Cannot read properties of undefined''))]
         | Inr (Some data) \<Rightarrow>
             ConsoleLog #
             (if reply_status data = ''ok'' then
                Alert ''Crawl started successfully!'' #
                (case reply_results data of
                   None \<Rightarrow> []
                 | Some [] \<Rightarrow> []
                 | Some (first # rest) \<Rightarrow>
                     if r_jobDir first \<noteq> []
                     then [SetLastJob (last (splitPath (r_jobDir first))) (r_jobDir first)]
                     else []) @
                [OnSubmit cfg]
              else [Alert (''Error: '' @ or_default (reply_error data) ''Unknown error'')])))"

section \<open>Sample values\<close>

text \<open>
  The configuration the job form starts from (the initial state of \<open>CrawlJobForm\<close>), a
  source of generated ids, clocks, and a stored job; they serve as concrete inputs.
\<close>

definition defaultConfig :: CrawlConfig where
  "defaultConfig =
     \<lparr>name = [], startUrls = [[]], maxPages = 100, maxDepth = 3, sameDomainOnly = True,
      includeSubdomains = False, includePatterns = [''**/*''],
      excludePatterns = [''**/*?*utm_*'', ''**/calendar/**'', ''**/wp-admin/**''],
      useSitemap = True, prioritizeSitemap = False, renderJs = False, timeout = 10000,
      retries = 3, concurrency = 2, requestsPerMinute = 60,
      userAgent = ''WebCrawler/1.0 (+https://example.com/bot)'', headers = [],
      stripQueryParams = True, canonicalOnly = False, respectRobots = True,
      overrideRobots = False, extractTitle = True, extractMetaDescription = True,
      extractHeadings = True, extractMainContent = True, extractLinks = True,
      extractImages = True, saveRawHtml = False\<rparr>"

definition sampleIds :: "nat \<Rightarrow> string" where
  "sampleIds k = ''id'' @ string_of_nat k"

definition clockAt :: "date \<Rightarrow> nat \<Rightarrow> date" where
  "clockAt t k = t + int k"

definition sampleJob :: "JobStatus \<Rightarrow> string option \<Rightarrow> CrawlJob" where
  "sampleJob st dir =
     \<lparr>job_id = ''j1'', job_name = ''site'', config = defaultConfig\<lparr>name := ''site''\<rparr>,
      status = st, createdAt = 1000, startedAt = Some 1000, finishedAt = None,
      updatedAt = None, counts = \<lparr>crawled = 3, queued = 0, failed = 0\<rparr>,
      jobDir = dir, startUrl = None\<rparr>"

definition sampleStore :: "CrawlJob list \<Rightarrow> store" where
  "sampleStore js = \<lparr>jobs = js, logs = [], intervals = [], console = []\<rparr>"

definition okResponse :: "'a \<Rightarrow> 'a fetched" where
  "okResponse v = Response True 200 ''OK'' (Inr []) (Inr v)"

definition sampleInfo :: "bool \<Rightarrow> string option \<Rightarrow> string option \<Rightarrow> BackendJobInfo" where
  "sampleInfo dn err dir =
     \<lparr>info_id = ''j1'', info_name = ''site'', created_at = 1,
      info_status = Some \<lparr>st_running = \<not> dn, st_done = dn, st_error = err\<rparr>,
      info_counts = Some \<lparr>b_crawled = Some 7\<rparr>,
      info_jobDir = dir, info_startUrl = Some ''https://example.com''\<rparr>"

definition sampleProtoText :: "string \<Rightarrow> string" where
  "sampleProtoText f = ''function '' @ f @ ''() { [native code] }''"

definition samplePost :: "string \<Rightarrow> CrawlConfig \<Rightarrow> js_error + CrawlReply option" where
  "samplePost path cfg =
     Inr (Some \<lparr>reply_status = ''ok'',
                reply_results = Some [\<lparr>r_startUrl = ''https://example.com'',
                   r_jobDir = ''output_crawler/job-1'', r_pages = 3\<rparr>],
                reply_error = None\<rparr>)"

text \<open>Whole epoch seconds: their text is the decimal numeral, the date is valid.\<close>

definition sampleNumText :: "int \<Rightarrow> string" where
  "sampleNumText t = string_of_int t"

definition sampleToDate :: "int \<Rightarrow> date option" where
  "sampleToDate t = Some (t * 1000)"

definition sampleBackendLogs :: "int BackendLog list" where
  "sampleBackendLogs =
     [\<lparr>ts = 1700000005, b_level = Some ''success'', b_message = ''Fetched https://example.com/''\<rparr>,
      \<lparr>ts = 1700000000, b_level = None, b_message = ''Starting crawl''\<rparr>]"

definition sampleLogStore :: store where
  "sampleLogStore =
     (sampleStore [sampleJob Running None])
       \<lparr>logs := [\<lparr>log_id = ''j1-0-1600000000'', jobId = ''j1'', level = ''info'',
                   message = ''stale'', timestamp = Some 1600000000000, meta = None\<rparr>,
                 \<lparr>log_id = ''j2-0-1650000000'', jobId = ''j2'', level = ''warn'',
                   message = ''other job'', timestamp = Some 1650000000000, meta = None\<rparr>]\<rparr>"

definition okReply :: "string \<Rightarrow> reply" where
  "okReply b = \<lparr>r_ok = True, r_status = 200, r_statusText = ''OK'', r_text = Inr b\<rparr>"

text \<open>
  Three behaviours of the network: an answer that comes after 70 seconds, too late for
  the first timeout, then a 503 answer after 1.2 seconds; a rejected fetch, then a good
  answer; a good answer at once.
\<close>

definition sampleNet :: "nat \<Rightarrow> reply promise" where
  "sampleNet attempt =
     (if attempt = 1 then ResolvesAt 70000 (okReply ''{}'')
      else ResolvesAt 1200 \<lparr>r_ok = False, r_status = 503, r_statusText = ''Service Unavailable'',
                            r_text = Inr ''waking up''\<rparr>)"

definition sampleNetRecovering :: "nat \<Rightarrow> reply promise" where
  "sampleNetRecovering attempt =
     (if attempt = 1 then RejectsAt 30 (TypeError ''Failed to fetch'')
      else ResolvesAt 800 (okReply ''{}''))"

definition sampleNetHealthy :: "nat \<Rightarrow> reply promise" where
  "sampleNetHealthy attempt = ResolvesAt 200 (okReply ''{}'')"

definition sampleParse :: "string \<Rightarrow> string option" where
  "sampleParse s = (if s = ''{}'' then Some s else None)"

section \<open>Properties of splitting\<close>

lemma split_not_Nil: "split c s \<noteq> []"
  by (induction s) (auto split: list.splits)

lemma split_no_sep: "c \<notin> set s \<Longrightarrow> split c s = [s]"
  by (induction s) auto

lemma split_at_sep: "c \<notin> set p \<Longrightarrow> split c (p @ c # r) = p # split c r"
  by (induction p) (auto split: list.splits)

lemma split_parts_no_sep: "x \<in> set (split c s) \<Longrightarrow> c \<notin> set x"
proof (induction s arbitrary: x)
  case Nil
  then show ?case by simp
next
  case (Cons a s)
  show ?case
  proof (cases "a = c")
    case True
    with Cons show ?thesis by auto
  next
    case False
    obtain p ps where ps: "split c s = p # ps"
      using split_not_Nil [of c s] by (cases "split c s") auto
    with False Cons.prems have "x = a # p \<or> x \<in> set ps" by auto
    then show ?thesis
    proof
      assume "x = a # p"
      moreover have "c \<notin> set p" using Cons.IH [of p] ps by simp
      ultimately show ?thesis using False by auto
    next
      assume "x \<in> set ps"
      then show ?thesis using Cons.IH [of x] ps by simp
    qed
  qed
qed

lemma nth_opt_in_set: "nth_opt xs i = Some x \<Longrightarrow> x \<in> set xs"
  by (induction xs i rule: nth_opt.induct) auto

lemma extractJobFolder_result:
  assumes "extractJobFolder t = Some x"
  shows "x \<noteq> [] \<and> CHR ''/'' \<notin> set x"
proof -
  from assms have t: "truthy t"
    by (auto simp: extractJobFolder_def split: if_splits)
  let ?parts = "split (CHR ''/'') (the t)"
  from assms t have "js_or (nth_opt ?parts 1) (js_or (nth_opt ?parts 0) None) = Some x"
    by (simp add: extractJobFolder_def Let_def)
  then have "(nth_opt ?parts 1 = Some x \<or> nth_opt ?parts 0 = Some x) \<and> x \<noteq> []"
    by (auto simp: js_or_def truthy_def split: if_splits option.splits)
  then have "x \<in> set ?parts \<and> x \<noteq> []"
    using nth_opt_in_set by fastforce
  then show ?thesis using split_parts_no_sep by fastforce
qed

lemma extractJobFolder_plain:
  assumes "x \<noteq> []" and "CHR ''/'' \<notin> set x"
  shows "extractJobFolder (Some x) = Some x"
  using assms by (simp add: extractJobFolder_def truthy_def js_or_def split_no_sep)

lemma extractJobFolder_two_segments:
  assumes "CHR ''/'' \<notin> set p" and "CHR ''/'' \<notin> set d" and "d \<noteq> []"
  shows "extractJobFolder (Some (p @ ''/'' @ d)) = Some d"
  using assms
  by (simp add: extractJobFolder_def truthy_def js_or_def split_at_sep split_no_sep)

lemma extractJobFolder_twice: "extractJobFolder (extractJobFolder t) = extractJobFolder t"
proof (cases "extractJobFolder t")
  case None
  then show ?thesis by (simp add: extractJobFolder_def truthy_def)
next
  case (Some x)
  then show ?thesis
    using extractJobFolder_result [OF Some] extractJobFolder_plain by simp
qed

section \<open>The folder of a working-directory token\<close>

text \<open>On a token \<open>p/q\<close> with one separator the code returns the final segment \<open>q\<close>.\<close>

lemma extractJobFolder_final_of_two:
  assumes "CHR ''/'' \<notin> set p" and "CHR ''/'' \<notin> set q" and "q \<noteq> []"
  shows "extractJobFolder (Some (p @ ''/'' @ q)) = Some q \<and> finalSegment (p @ ''/'' @ q) = q"
  using assms extractJobFolder_two_segments [of p q]
  by (simp add: finalSegment_def split_at_sep split_no_sep)

text \<open>
  Claim C2 does not hold of the code on a token with more than two segments. For
  \<open>srv/output_crawler/job-1\<close> the final segment, the job's folder, is \<open>job-1\<close>, and it
  is what the job form takes from such a string (the last part of \<open>splitPath\<close>);
  \<open>extractJobFolder\<close> returns the second segment \<open>output_crawler\<close>, and the download
  link is built with it. (Idempotence holds on every token, \<open>extractJobFolder_twice\<close>,
  and on a token with one separator the result is the final segment,
  \<open>extractJobFolder_final_of_two\<close>.)
\<close>

theorem extractJobFolder_deep_token:
  "extractJobFolder (Some ''srv/output_crawler/job-1'') = Some ''output_crawler''
   \<and> finalSegment ''srv/output_crawler/job-1'' = ''job-1''
   \<and> last (splitPath ''srv/output_crawler/job-1'') = ''job-1''
   \<and> buildDownloadUrl api (Some ''srv/output_crawler/job-1'') ''all_results.json''
        = Some (api @ ''/download/output_crawler/all_results.json'')"
  by (simp add: extractJobFolder_def finalSegment_def truthy_def js_or_def buildDownloadUrl_def)

section \<open>Reconciliation feeds the download link\<close>

lemma findJob_updateJob:
  assumes "\<And>j. job_id (f j) = job_id j"
  shows "findJob (updateJob i f js) i = map_option f (findJob js i)"
  using assms by (induction js) (auto simp: findJob_def)

lemma mergeInfo_kept:
  "job_id (mergeInfo r info l) = job_id l"
  "job_name (mergeInfo r info l) = job_name l"
  "config (mergeInfo r info l) = config l"
  "createdAt (mergeInfo r info l) = createdAt l"
  "startedAt (mergeInfo r info l) = startedAt l"
  by (simp_all add: mergeInfo_def Let_def)

lemma mergeInfo_status:
  "status (mergeInfo r info l) =
     (if reportsError info then Failed else if reportsDone info then Completed else status l)"
  by (simp add: mergeInfo_def Let_def)

lemma mergeInfo_counts:
  "counts (mergeInfo r info l) =
     (counts l)\<lparr>crawled := (case info_counts info of
                      None \<Rightarrow> crawled (counts l)
                    | Some c \<Rightarrow> (case b_crawled c of
                                  None \<Rightarrow> crawled (counts l)
                                | Some n \<Rightarrow> n))\<rparr>"
  by (simp add: mergeInfo_def Let_def)

lemma mergeInfo_updatedAt: "updatedAt (mergeInfo r info l) = Some (r 0)"
  by (simp add: mergeInfo_def Let_def)

lemma mergeInfo_finishedAt:
  "finishedAt (mergeInfo r info l) =
     (if reportsError info then Some (r (if reportsDone info then 2 else 1))
      else if reportsDone info then Some (r 1) else finishedAt l)"
  by (simp add: mergeInfo_def Let_def)

lemma mergeInfo_jobDir:
  "jobDir (mergeInfo r info l) =
     (if truthy (info_jobDir info) then Some (''output_crawler/'' @ the (info_jobDir info))
      else jobDir l)"
  by (simp add: mergeInfo_def Let_def)

lemma mergeInfo_startUrl:
  "startUrl (mergeInfo r info l) =
     (if truthy (info_startUrl info) then info_startUrl info else startUrl l)"
  by (simp add: mergeInfo_def Let_def)

lemmas mergeInfo_fields = mergeInfo_kept mergeInfo_status mergeInfo_counts mergeInfo_updatedAt
  mergeInfo_finishedAt mergeInfo_jobDir mergeInfo_startUrl

lemma findJob_sync:
  assumes "getJobInfo res = Some info" and "findJob (jobs w) i = Some local"
  shows "findJob (jobs (syncJobFromBackend reads res i w)) i = Some (mergeInfo reads info local)"
  using assms by (simp add: syncJobFromBackend_def findJob_updateJob mergeInfo_kept)

lemma buildDownloadUrl_folder:
  assumes "extractJobFolder jd = Some folder"
  shows "buildDownloadUrl api jd fileName = Some (api @ ''/download/'' @ folder @ ''/'' @ fileName)"
  using assms extractJobFolder_result [OF assms] by (simp add: buildDownloadUrl_def)

text \<open>
  Claim C10: when the backend reports a job directory name \<open>d\<close> without \<open>/\<close>,
  \<open>syncJobFromBackend\<close> stores the token \<open>output_crawler/d\<close> on the job, the folder
  extracted from that token is \<open>d\<close> again, and the download URL is the base endpoint
  followed by \<open>/download/d/\<close> and the file name. (The name is not empty: an empty one is
  falsy and \<open>syncJobFromBackend\<close> stores nothing for it.)
\<close>

theorem sync_then_download_roundtrip:
  assumes "CHR ''/'' \<notin> set d" and "d \<noteq> []"
    and "getJobInfo res = Some info" and "info_jobDir info = Some d"
    and "findJob (jobs w) i = Some local"
  shows "findJob (jobs (syncJobFromBackend reads res i w)) i = Some (mergeInfo reads info local)
     \<and> jobDir (mergeInfo reads info local) = Some (''output_crawler/'' @ d)
     \<and> extractJobFolder (jobDir (mergeInfo reads info local)) = Some d
     \<and> buildDownloadUrl api (jobDir (mergeInfo reads info local)) fileName
          = Some (api @ ''/download/'' @ d @ ''/'' @ fileName)"
proof -
  let ?job = "mergeInfo reads info local"
  have f: "findJob (jobs (syncJobFromBackend reads res i w)) i = Some ?job"
    using assms(3,5) by (rule findJob_sync)
  have d: "jobDir ?job = Some (''output_crawler/'' @ d)"
    using assms(2,4) by (simp add: mergeInfo_jobDir truthy_def)
  have e: "extractJobFolder (jobDir ?job) = Some d"
    using extractJobFolder_two_segments [of "''output_crawler''" d] assms(1,2) d by simp
  from f d e buildDownloadUrl_folder [OF e] show ?thesis by blast
qed

theorem sync_then_download_roundtrip_witness:
  "findJob (jobs (syncJobFromBackend (clockAt 5000)
       (okResponse (Some (sampleInfo True None (Some ''job-20251003-101601''))))
       ''j1'' (sampleStore [sampleJob Running None]))) ''j1''
     = Some (mergeInfo (clockAt 5000) (sampleInfo True None (Some ''job-20251003-101601''))
          (sampleJob Running None))
   \<and> jobDir (mergeInfo (clockAt 5000) (sampleInfo True None (Some ''job-20251003-101601''))
          (sampleJob Running None)) = Some (''output_crawler/'' @ ''job-20251003-101601'')
   \<and> extractJobFolder (jobDir (mergeInfo (clockAt 5000)
          (sampleInfo True None (Some ''job-20251003-101601'')) (sampleJob Running None)))
     = Some ''job-20251003-101601''
   \<and> buildDownloadUrl ''http://127.0.0.1:8000''
        (jobDir (mergeInfo (clockAt 5000) (sampleInfo True None (Some ''job-20251003-101601''))
          (sampleJob Running None))) ''all_results.json''
     = Some (''http://127.0.0.1:8000'' @ ''/download/'' @ ''job-20251003-101601'' @ ''/''
          @ ''all_results.json'')"
proof -
  have a: "CHR ''/'' \<notin> set ''job-20251003-101601''" by simp
  have b: "''job-20251003-101601'' \<noteq> []" by simp
  have c: "getJobInfo (okResponse (Some (sampleInfo True None (Some ''job-20251003-101601''))))
     = Some (sampleInfo True None (Some ''job-20251003-101601''))"
    by (simp add: getJobInfo_def okResponse_def)
  have d: "info_jobDir (sampleInfo True None (Some ''job-20251003-101601''))
     = Some ''job-20251003-101601''"
    by (simp add: sampleInfo_def)
  have e: "findJob (jobs (sampleStore [sampleJob Running None])) ''j1''
     = Some (sampleJob Running None)"
    by (simp add: findJob_def sampleStore_def sampleJob_def)
  show ?thesis by (rule sync_then_download_roundtrip [OF a b c d e])
qed

section \<open>Export\<close>

lemma API_URL_values:
  "API_URL None = ''http://127.0.0.1:8000''"
  "API_URL (Some ''https://crawler.example/'') = ''https://crawler.example''"
  by (simp_all add: API_URL_def or_default_def stripTrailingSlash_def)

lemma exportJob_real:
  assumes "findJob (jobs w) i = Some job"
  shows "exportJob False api protoText blobUrl w i formats =
     (let links = List.map_filter
            (\<lambda>f. case buildDownloadUrl api (jobDir job) (fileNameText protoText f) of
                   None \<Rightarrow> None | Some url \<Rightarrow> Some (f, url))
            (filter inFormatToFilename formats)
      in if links = [] then Inl (Error ''No download links available for requested formats.'')
         else Inr links)"
  using assms by (simp add: exportJob_def)

text \<open>
  Claim C3: for a stored job whose working-directory token is
  \<open>output/job-20250101-000000\<close>, exporting \<open>json\<close> and \<open>csv\<close> returns exactly two
  format/url pairs, ending in \<open>/job-20250101-000000/all_results.json\<close> and
  \<open>/job-20250101-000000/all_results.csv\<close>, in the order requested; and a link is a
  function of the base endpoint, the folder and the file name only.
\<close>

theorem exportJob_json_csv_links:
  assumes "findJob (jobs w) i = Some job"
    and "jobDir job = Some ''output/job-20250101-000000''"
    and "extractJobFolder jd = Some folder"
  shows "exportJob USE_MOCK api protoText blobUrl w i [''json'', ''csv''] =
           Inr [(''json'', api @ ''/download/job-20250101-000000/all_results.json''),
                (''csv'', api @ ''/download/job-20250101-000000/all_results.csv'')]
     \<and> exportJob USE_MOCK api protoText blobUrl w i [''csv'', ''json''] =
           Inr [(''csv'', api @ ''/download/job-20250101-000000/all_results.csv''),
                (''json'', api @ ''/download/job-20250101-000000/all_results.json'')]
     \<and> buildDownloadUrl api jd fileName = Some (api @ ''/download/'' @ folder @ ''/'' @ fileName)"
proof -
  have e: "extractJobFolder (Some ''output/job-20250101-000000'') = Some ''job-20250101-000000''"
    using extractJobFolder_two_segments [of "''output''" "''job-20250101-000000''"] by simp
  have u: "buildDownloadUrl api (jobDir job) fn
      = Some (api @ ''/download/job-20250101-000000/'' @ fn)" for fn
    using buildDownloadUrl_folder [OF e, of api fn] assms(2) by simp
  have "exportJob False api protoText blobUrl w i [''json'', ''csv''] =
           Inr [(''json'', api @ ''/download/job-20250101-000000/all_results.json''),
                (''csv'', api @ ''/download/job-20250101-000000/all_results.csv'')]"
    by (simp add: exportJob_real [OF assms(1)] u inFormatToFilename_def formatToFilename_def
        fileNameText_def List.map_filter_simps)
  moreover have "exportJob False api protoText blobUrl w i [''csv'', ''json''] =
           Inr [(''csv'', api @ ''/download/job-20250101-000000/all_results.csv''),
                (''json'', api @ ''/download/job-20250101-000000/all_results.json'')]"
    by (simp add: exportJob_real [OF assms(1)] u inFormatToFilename_def formatToFilename_def
        fileNameText_def List.map_filter_simps)
  ultimately show ?thesis
    using buildDownloadUrl_folder [OF assms(3)] by (simp add: USE_MOCK_def)
qed

theorem exportJob_json_csv_links_witness:
  "exportJob USE_MOCK ''http://127.0.0.1:8000'' sampleProtoText sampleIds
      (sampleStore [sampleJob Completed (Some ''output/job-20250101-000000'')]) ''j1''
      [''json'', ''csv''] =
     Inr [(''json'', ''http://127.0.0.1:8000'' @ ''/download/job-20250101-000000/all_results.json''),
          (''csv'', ''http://127.0.0.1:8000'' @ ''/download/job-20250101-000000/all_results.csv'')]
   \<and> exportJob USE_MOCK ''http://127.0.0.1:8000'' sampleProtoText sampleIds
      (sampleStore [sampleJob Completed (Some ''output/job-20250101-000000'')]) ''j1''
      [''csv'', ''json''] =
     Inr [(''csv'', ''http://127.0.0.1:8000'' @ ''/download/job-20250101-000000/all_results.csv''),
          (''json'', ''http://127.0.0.1:8000'' @ ''/download/job-20250101-000000/all_results.json'')]
   \<and> buildDownloadUrl ''http://127.0.0.1:8000'' (Some ''output_crawler/job-7'') ''all_results.md''
        = Some (''http://127.0.0.1:8000'' @ ''/download/'' @ ''job-7'' @ ''/'' @ ''all_results.md'')"
proof -
  have a: "findJob (jobs (sampleStore [sampleJob Completed (Some ''output/job-20250101-000000'')])) ''j1''
     = Some (sampleJob Completed (Some ''output/job-20250101-000000''))"
    by (simp add: findJob_def sampleStore_def sampleJob_def)
  have b: "jobDir (sampleJob Completed (Some ''output/job-20250101-000000''))
     = Some ''output/job-20250101-000000''"
    by (simp add: sampleJob_def)
  have c: "extractJobFolder (Some ''output_crawler/job-7'') = Some ''job-7''"
    by (simp add: extractJobFolder_def truthy_def js_or_def)
  show ?thesis by (rule exportJob_json_csv_links [OF a b c])
qed

lemma exportJob_without_token:
  assumes "findJob (jobs w) i = Some job" and "\<not> truthy (jobDir job)"
  shows "exportJob False api protoText blobUrl w i formats
     = Inl (Error ''No download links available for requested formats.'')"
proof -
  have "buildDownloadUrl api (jobDir job) fn = None" for fn
    using assms(2) by (simp add: buildDownloadUrl_def extractJobFolder_def)
  then show ?thesis
    by (simp add: exportJob_real [OF assms(1)] List.map_filter_def)
qed

lemma exportJob_drops_unlisted:
  "exportJob False api protoText blobUrl w i formats
     = exportJob False api protoText blobUrl w i (filter inFormatToFilename formats)"
  by (simp add: exportJob_def Let_def split: option.splits)

lemma exportJob_nothing_listed:
  assumes "findJob (jobs w) i = Some job" and "filter inFormatToFilename formats = []"
  shows "exportJob False api protoText blobUrl w i formats
     = Inl (Error ''No download links available for requested formats.'')"
  using assms by (simp add: exportJob_real List.map_filter_simps)

text \<open>
  Claim C7 fails on the code for a format id that names a property of
  \<open>Object.prototype\<close>. \<open>toString\<close> is not one of the three known formats, so the claim
  has it dropped and, being the only requested id, the call fail. The filter
  \<open>f in formatToFilename\<close> keeps it, and the call returns a link whose file name is the
  text of the inherited member. (The rest of the claim holds: without a token the call
  fails, and ids that are neither known nor inherited are dropped; see
  \<open>exportJob_without_token\<close>, \<open>exportJob_drops_unlisted\<close>, \<open>exportJob_nothing_listed\<close>.)
\<close>

theorem exportJob_inherited_key_not_dropped:
  "exportJob USE_MOCK api protoText blobUrl
     (sampleStore [sampleJob Completed (Some ''output_crawler/job-1'')]) ''j1'' [''toString'']
   = Inr [(''toString'', api @ ''/download/job-1/'' @ protoText ''toString'')]"
  by (simp add: exportJob_def USE_MOCK_def findJob_def sampleStore_def sampleJob_def
      inFormatToFilename_def formatToFilename_def objectPrototypeKeys_def fileNameText_def
      List.map_filter_simps buildDownloadUrl_def extractJobFolder_def truthy_def js_or_def)

section \<open>Actions on finished jobs\<close>

text \<open>
  Claim C4: for a stored job whose status is completed, failed or canceled,
  \<open>performJobAction\<close> with any of the four actions does not throw and changes neither the
  jobs (status, counts, timestamps) nor the log entries nor the timers, in the mock branch
  and in the real one; in the mock branch the whole state is as before. (The real branch
  writes its console warning.) Pausing a completed job is the instance \<open>a = Pause\<close>.
\<close>

theorem performJobAction_terminal_noop:
  assumes "findJob (jobs w) i = Some job" and "status job \<in> {Completed, Failed, Canceled}"
  shows "fst (performJobAction mock ids reads i a w) = Inr ()
     \<and> jobs (snd (performJobAction mock ids reads i a w)) = jobs w
     \<and> logs (snd (performJobAction mock ids reads i a w)) = logs w
     \<and> intervals (snd (performJobAction mock ids reads i a w)) = intervals w
     \<and> performJobAction True ids reads i a w = (Inr (), w)"
  using assms by (auto simp: performJobAction_def Let_def)

theorem performJobAction_terminal_noop_witness:
  "fst (performJobAction True sampleIds (clockAt 9000) ''j1'' Pause
          (sampleStore [sampleJob Completed None])) = Inr ()
   \<and> jobs (snd (performJobAction True sampleIds (clockAt 9000) ''j1'' Pause
          (sampleStore [sampleJob Completed None])))
       = jobs (sampleStore [sampleJob Completed None])
   \<and> logs (snd (performJobAction True sampleIds (clockAt 9000) ''j1'' Pause
          (sampleStore [sampleJob Completed None])))
       = logs (sampleStore [sampleJob Completed None])
   \<and> intervals (snd (performJobAction True sampleIds (clockAt 9000) ''j1'' Pause
          (sampleStore [sampleJob Completed None])))
       = intervals (sampleStore [sampleJob Completed None])
   \<and> performJobAction True sampleIds (clockAt 9000) ''j1'' Pause
          (sampleStore [sampleJob Completed None])
       = (Inr (), sampleStore [sampleJob Completed None])"
proof -
  have a: "findJob (jobs (sampleStore [sampleJob Completed None])) ''j1''
     = Some (sampleJob Completed None)"
    by (simp add: findJob_def sampleStore_def sampleJob_def)
  have b: "status (sampleJob Completed None) \<in> {Completed, Failed, Canceled}"
    by (simp add: sampleJob_def)
  show ?thesis by (rule performJobAction_terminal_noop [OF a b])
qed

text \<open>The same action on a running job does change the state in the mock branch.\<close>

lemma performJobAction_pause_running:
  "performJobAction True sampleIds (clockAt 9000) ''j1'' Pause (sampleStore [sampleJob Running None])
     \<noteq> (Inr (), sampleStore [sampleJob Running None])"
  by (simp add: performJobAction_def findJob_def sampleStore_def sampleJob_def Let_def
      pushLog_def)

section \<open>Job creation\<close>

text \<open>
  Claim C5: when the remote submission does not succeed (the fetch rejects, the response
  is not 2xx, the body does not parse or carries no job identifier), \<open>createJob\<close> fails
  with an error and the store is exactly as before: no job and no log entry is created.
\<close>

theorem createJob_failure_keeps_store:
  assumes "\<not> submissionSucceeds res"
  shows "isl (fst (createJob USE_MOCK ids reads res cfg w))
     \<and> snd (createJob USE_MOCK ids reads res cfg w) = w"
  using assms
  by (auto simp: createJob_def USE_MOCK_def submissionSucceeds_def
      split: fetched.splits sum.splits option.splits)

theorem createJob_failure_keeps_store_witness:
  "isl (fst (createJob USE_MOCK sampleIds (clockAt 1000)
         (Response False 503 ''Service Unavailable'' (Inr ''waking up'') (Inl (SyntaxError [])))
         defaultConfig (sampleStore [sampleJob Running None])))
   \<and> snd (createJob USE_MOCK sampleIds (clockAt 1000)
         (Response False 503 ''Service Unavailable'' (Inr ''waking up'') (Inl (SyntaxError [])))
         defaultConfig (sampleStore [sampleJob Running None]))
       = sampleStore [sampleJob Running None]"
proof -
  have a: "\<not> submissionSucceeds
      (Response False 503 ''Service Unavailable'' (Inr ''waking up'') (Inl (SyntaxError [])))"
    by (simp add: submissionSucceeds_def)
  show ?thesis by (rule createJob_failure_keeps_store [OF a])
qed

text \<open>A submission that succeeds puts exactly one running job in front of the list.\<close>

lemma createJob_success:
  assumes "submissionSucceeds res"
  shows "\<exists>job. createJob False ids reads res cfg w = (Inr job, w\<lparr>jobs := job # jobs w\<rparr>)
     \<and> status job = Running \<and> config job = cfg"
  using assms
  by (auto simp: createJob_def submissionSucceeds_def Let_def
      split: fetched.splits sum.splits option.splits)

text \<open>In the real branch the call fails exactly when the submission does not succeed.\<close>

lemma createJob_fails_iff:
  "isl (fst (createJob False ids reads res cfg w)) = (\<not> submissionSucceeds res)"
  by (simp add: createJob_def submissionSucceeds_def Let_def
      split: fetched.splits sum.splits option.splits)

text \<open>
  Claim C6, as stated, fails on the code: \<open>createJob\<close> does not look at the start URLs.
  With an empty list and a remote service that answers with a job id, it returns the new
  job and stores it.
\<close>

theorem createJob_accepts_empty_startUrls:
  "createJob USE_MOCK sampleIds (clockAt 1000) (okResponse (Some \<lparr>start_job_id = Some ''job-1''\<rparr>))
     (defaultConfig\<lparr>name := ''site'', startUrls := []\<rparr>) (sampleStore [])
   = (Inr \<lparr>job_id = ''job-1'', job_name = ''site'',
           config = defaultConfig\<lparr>name := ''site'', startUrls := []\<rparr>, status = Running,
           createdAt = 1000, startedAt = Some 1000, finishedAt = None, updatedAt = None,
           counts = \<lparr>crawled = 0, queued = 0, failed = 0\<rparr>, jobDir = None, startUrl = None\<rparr>,
      sampleStore [\<lparr>job_id = ''job-1'', job_name = ''site'',
           config = defaultConfig\<lparr>name := ''site'', startUrls := []\<rparr>, status = Running,
           createdAt = 1000, startedAt = Some 1000, finishedAt = None, updatedAt = None,
           counts = \<lparr>crawled = 0, queued = 0, failed = 0\<rparr>, jobDir = None, startUrl = None\<rparr>])"
  by (simp add: createJob_def USE_MOCK_def okResponse_def truthy_def or_default_def Let_def
      sampleStore_def clockAt_def defaultConfig_def)

text \<open>
  Claim C6, amended: the check is made by the job form. For a configuration whose
  start-URL list is empty or whose first start URL is blank (empty after \<open>trim()\<close>; so in
  particular when all of them are blank), \<open>handleSubmit\<close> shows one alert, the one for the
  name when the name is blank and the one for the start URL otherwise, and does nothing
  else: it posts nothing and does not call \<open>onSubmit\<close>, so \<open>createJob\<close> is not called and
  no job is added. \<open>createJob\<close> itself does not validate: for every configuration it
  fails exactly when the remote submission does not succeed.
\<close>

theorem handleSubmit_rejects_blank_startUrls:
  assumes "startUrls cfg = [] \<or> isBlank (hd (startUrls cfg))"
  shows "handleSubmit post cfg =
           [Alert (if isBlank (name cfg) then ''Please provide a job name''
                   else ''Please provide at least one start URL'')]
     \<and> isl (fst (createJob USE_MOCK ids reads res c w)) = (\<not> submissionSucceeds res)"
  using assms by (auto simp: handleSubmit_def createJob_fails_iff USE_MOCK_def)

theorem handleSubmit_rejects_blank_startUrls_witness:
  "handleSubmit samplePost (defaultConfig\<lparr>name := ''site'', startUrls := []\<rparr>)
      = [Alert ''Please provide at least one start URL'']
   \<and> handleSubmit samplePost
        (defaultConfig\<lparr>name := ''site'',
           startUrls := [[CHR 0x20, CHR 0xC2, CHR 0xA0, CHR 0xE2, CHR 0x80, CHR 0xA8],
                         ''https://example.com'']\<rparr>)
      = [Alert ''Please provide at least one start URL'']
   \<and> \<not> isl (fst (createJob USE_MOCK sampleIds (clockAt 1000)
           (okResponse (Some \<lparr>start_job_id = Some ''job-1''\<rparr>))
           (defaultConfig\<lparr>name := ''site'', startUrls := []\<rparr>) (sampleStore [])))"
proof -
  let ?empty = "defaultConfig\<lparr>name := ''site'', startUrls := []\<rparr>"
  let ?blank = "defaultConfig\<lparr>name := ''site'',
      startUrls := [[CHR 0x20, CHR 0xC2, CHR 0xA0, CHR 0xE2, CHR 0x80, CHR 0xA8],
                    ''https://example.com'']\<rparr>"
  let ?res = "okResponse (Some \<lparr>start_job_id = Some ''job-1''\<rparr>)"
  have n: "\<not> isBlank ''site''"
    by (simp add: asciiSpace_def space3_def)
  have a: "startUrls ?empty = [] \<or> isBlank (hd (startUrls ?empty))"
    by simp
  have b: "startUrls ?blank = [] \<or> isBlank (hd (startUrls ?blank))"
    by (simp add: asciiSpace_def space3_def)
  have s: "submissionSucceeds ?res"
    by (simp add: submissionSucceeds_def okResponse_def truthy_def)
  from handleSubmit_rejects_blank_startUrls
      [OF a, of samplePost sampleIds "clockAt 1000" ?res ?empty "sampleStore []"]
    handleSubmit_rejects_blank_startUrls
      [OF b, of samplePost sampleIds "clockAt 1000" ?res ?empty "sampleStore []"]
    n s
  show ?thesis by simp
qed

text \<open>With a name and a start URL the form does post, and then calls \<open>onSubmit\<close>.\<close>

lemma handleSubmit_accepts:
  "handleSubmit samplePost
     (defaultConfig\<lparr>name := ''site'', startUrls := [''https://example.com'']\<rparr>)
   = [Post ''/crawl'' (defaultConfig\<lparr>name := ''site'', startUrls := [''https://example.com'']\<rparr>),
      ConsoleLog, Alert ''Crawl started successfully!'',
      SetLastJob ''job-1'' ''output_crawler/job-1'',
      OnSubmit (defaultConfig\<lparr>name := ''site'', startUrls := [''https://example.com'']\<rparr>)]"
  by (simp add: handleSubmit_def samplePost_def asciiSpace_def space3_def defaultConfig_def)

section \<open>Applying a snapshot twice\<close>

text \<open>
  Claim C1, as stated, fails on the code: each application of a snapshot reads the clock
  anew. When the same snapshot, one that reports completion, is merged at time 5000 and
  again at time 9000, the second merge changes both \<open>updatedAt\<close> and \<open>finishedAt\<close>.
\<close>

theorem mergeInfo_restamps_timestamps:
  "updatedAt (mergeInfo (clockAt 9000) (sampleInfo True None (Some ''job-1''))
       (mergeInfo (clockAt 5000) (sampleInfo True None (Some ''job-1'')) (sampleJob Running None)))
     \<noteq> updatedAt (mergeInfo (clockAt 5000) (sampleInfo True None (Some ''job-1''))
         (sampleJob Running None))
   \<and> finishedAt (mergeInfo (clockAt 9000) (sampleInfo True None (Some ''job-1''))
       (mergeInfo (clockAt 5000) (sampleInfo True None (Some ''job-1'')) (sampleJob Running None)))
     \<noteq> finishedAt (mergeInfo (clockAt 5000) (sampleInfo True None (Some ''job-1''))
         (sampleJob Running None))"
  by (simp add: mergeInfo_updatedAt mergeInfo_finishedAt sampleInfo_def clockAt_def
      reportsDone_def reportsError_def truthy_def)

text \<open>
  Claim C1, amended: merging the same snapshot a second time leaves every field of the
  job other than \<open>updatedAt\<close> and \<open>finishedAt\<close> as the first merge left it (the two
  records are equal once these two fields are overwritten alike); \<open>updatedAt\<close> becomes
  the time of the second merge; and when the snapshot reports neither completion nor an
  error, \<open>finishedAt\<close> is unchanged as well.
\<close>

theorem mergeInfo_twice_same_but_timestamps:
  "(mergeInfo rb info (mergeInfo ra info local))\<lparr>updatedAt := u, finishedAt := f\<rparr>
      = (mergeInfo ra info local)\<lparr>updatedAt := u, finishedAt := f\<rparr>
   \<and> updatedAt (mergeInfo rb info (mergeInfo ra info local)) = Some (rb 0)
   \<and> (\<not> reportsDone info \<and> \<not> reportsError info \<longrightarrow>
        finishedAt (mergeInfo rb info (mergeInfo ra info local))
          = finishedAt (mergeInfo ra info local))"
proof (intro conjI)
  show "(mergeInfo rb info (mergeInfo ra info local))\<lparr>updatedAt := u, finishedAt := f\<rparr>
      = (mergeInfo ra info local)\<lparr>updatedAt := u, finishedAt := f\<rparr>"
    by (rule CrawlJob.equality) (simp_all add: mergeInfo_fields split: option.splits)
  show "updatedAt (mergeInfo rb info (mergeInfo ra info local)) = Some (rb 0)"
    by (simp add: mergeInfo_updatedAt)
  show "\<not> reportsDone info \<and> \<not> reportsError info \<longrightarrow>
        finishedAt (mergeInfo rb info (mergeInfo ra info local))
          = finishedAt (mergeInfo ra info local)"
    by (simp add: mergeInfo_finishedAt)
qed

theorem mergeInfo_twice_same_but_timestamps_witness:
  "(mergeInfo (clockAt 9000) (sampleInfo False None (Some ''job-1''))
       (mergeInfo (clockAt 5000) (sampleInfo False None (Some ''job-1'')) (sampleJob Running None)))
        \<lparr>updatedAt := None, finishedAt := None\<rparr>
      = (mergeInfo (clockAt 5000) (sampleInfo False None (Some ''job-1'')) (sampleJob Running None))
        \<lparr>updatedAt := None, finishedAt := None\<rparr>
   \<and> updatedAt (mergeInfo (clockAt 9000) (sampleInfo False None (Some ''job-1''))
       (mergeInfo (clockAt 5000) (sampleInfo False None (Some ''job-1'')) (sampleJob Running None)))
       = Some (clockAt 9000 0)
   \<and> finishedAt (mergeInfo (clockAt 9000) (sampleInfo False None (Some ''job-1''))
       (mergeInfo (clockAt 5000) (sampleInfo False None (Some ''job-1'')) (sampleJob Running None)))
       = finishedAt (mergeInfo (clockAt 5000) (sampleInfo False None (Some ''job-1''))
           (sampleJob Running None))"
proof -
  have n: "\<not> reportsDone (sampleInfo False None (Some ''job-1''))
      \<and> \<not> reportsError (sampleInfo False None (Some ''job-1''))"
    by (simp add: reportsDone_def reportsError_def sampleInfo_def truthy_def)
  from mergeInfo_twice_same_but_timestamps
      [where rb = "clockAt 9000" and ra = "clockAt 5000" and u = None and f = None
         and info = "sampleInfo False None (Some ''job-1'')" and local = "sampleJob Running None"]
    n
  show ?thesis by blast
qed

section \<open>Refreshing the cached log entries\<close>

lemma length_indexed: "length (indexed k xs) = length xs"
  by (induction xs arbitrary: k) simp_all

lemma nth_indexed: "n < length xs \<Longrightarrow> indexed k xs ! n = (k + n, xs ! n)"
proof (induction xs arbitrary: k n)
  case Nil
  then show ?case by simp
next
  case (Cons x xs)
  then show ?case by (cases n) simp_all
qed

lemma jobId_mapLog: "jobId (mapLog numText toDate i p) = i"
  by (cases p) (simp add: mapLog_def)

lemma filter_mapLog_same:
  "filter (\<lambda>x. jobId x = i) (map (mapLog numText toDate i) ps) = map (mapLog numText toDate i) ps"
  by (induction ps) (simp_all add: jobId_mapLog)

lemma filter_mapLog_other:
  "filter (\<lambda>x. jobId x \<noteq> i) (map (mapLog numText toDate i) ps) = []"
  by (induction ps) (simp_all add: jobId_mapLog)

lemma filter_other_same: "filter (\<lambda>x. jobId x = i) (filter (\<lambda>x. jobId x \<noteq> i) xs) = []"
  by (induction xs) simp_all

lemma getJobLogs_ok:
  "getJobLogs numText toDate engineSort (Response True st stt btext (Inr (Some ls))) i w =
     (sortByTime engineSort (map (mapLog numText toDate i) (indexed 0 ls)),
      w\<lparr>logs := filter (\<lambda>x. jobId x \<noteq> i) (logs w)
                 @ map (mapLog numText toDate i) (indexed 0 ls)\<rparr>)"
  by (simp add: getJobLogs_def Let_def)

text \<open>
  Claim C9: when \<open>getJobLogs\<close> has fetched the log set \<open>ls\<close> of job \<open>i\<close> (an ok response
  whose body has the \<open>logs\<close> array), then in the store \<open>w'\<close> after the call the cached
  entries of that job, \<open>mine\<close>, are as many as were fetched, whatever was cached for the
  job before, and the \<open>k\<close>-th of them has the identifier made of the job id, the position
  \<open>k\<close> and the text of the \<open>k\<close>-th server timestamp, joined by hyphens, with the level
  (\<open>info\<close> when the server gave none), message and date of the \<open>k\<close>-th fetched entry; the
  entries of every other job are as before, in their order, and come first; the jobs are
  untouched; and fetching the same data again returns the same entries and leaves the
  store as it is, so the identifiers are the same.
\<close>

theorem getJobLogs_replaces_job_logs:
  assumes "res = Response True st stt btext (Inr (Some ls))"
    and "w' = snd (getJobLogs numText toDate engineSort res i w)"
    and "mine = filter (\<lambda>x. jobId x = i) (logs w')"
  shows "length mine = length ls
     \<and> (\<forall>k < length ls.
          mine ! k =
            \<lparr>log_id = i @ ''-'' @ string_of_nat k @ ''-'' @ numText (ts (ls ! k)),
             jobId = i,
             level = (case b_level (ls ! k) of None \<Rightarrow> ''info'' | Some lv \<Rightarrow> lv),
             message = b_message (ls ! k),
             timestamp = toDate (ts (ls ! k)),
             meta = None\<rparr>)
     \<and> logs w' = filter (\<lambda>x. jobId x \<noteq> i) (logs w) @ mine
     \<and> filter (\<lambda>x. jobId x \<noteq> i) (logs w') = filter (\<lambda>x. jobId x \<noteq> i) (logs w)
     \<and> jobs w' = jobs w
     \<and> getJobLogs numText toDate engineSort res i w'
          = (fst (getJobLogs numText toDate engineSort res i w), w')"
proof -
  let ?mapped = "map (mapLog numText toDate i) (indexed 0 ls)"
  have w': "w' = w\<lparr>logs := filter (\<lambda>x. jobId x \<noteq> i) (logs w) @ ?mapped\<rparr>"
    using assms(1,2) by (simp add: getJobLogs_ok)
  have mine: "mine = ?mapped"
    using assms(3) by (simp add: w' filter_mapLog_same filter_other_same)
  have a: "length mine = length ls"
    by (simp add: mine length_indexed)
  have b: "\<forall>k < length ls.
          mine ! k =
            \<lparr>log_id = i @ ''-'' @ string_of_nat k @ ''-'' @ numText (ts (ls ! k)),
             jobId = i,
             level = (case b_level (ls ! k) of None \<Rightarrow> ''info'' | Some lv \<Rightarrow> lv),
             message = b_message (ls ! k),
             timestamp = toDate (ts (ls ! k)),
             meta = None\<rparr>"
    by (simp add: mine length_indexed nth_indexed mapLog_def)
  have c: "logs w' = filter (\<lambda>x. jobId x \<noteq> i) (logs w) @ mine"
    by (simp add: w' mine)
  have d: "filter (\<lambda>x. jobId x \<noteq> i) (logs w') = filter (\<lambda>x. jobId x \<noteq> i) (logs w)"
    by (simp add: w' filter_mapLog_other)
  have e: "jobs w' = jobs w" by (simp add: w')
  have f: "getJobLogs numText toDate engineSort res i w'
      = (fst (getJobLogs numText toDate engineSort res i w), w')"
    using assms(1) d by (simp add: getJobLogs_ok w')
  from a b c d e f show ?thesis by blast
qed

text \<open>
  On the sample data: the stale entry of \<open>j1\<close> is gone, the entry of \<open>j2\<close> stays in front,
  and the two fetched entries follow in the order fetched, with their identifiers.
\<close>

theorem getJobLogs_replaces_job_logs_witness:
  "logs (snd (getJobLogs sampleNumText sampleToDate rev
            (okResponse (Some sampleBackendLogs)) ''j1'' sampleLogStore))
     = [\<lparr>log_id = ''j2-0-1650000000'', jobId = ''j2'', level = ''warn'',
          message = ''other job'', timestamp = Some 1650000000000, meta = None\<rparr>,
        \<lparr>log_id = ''j1-0-1700000005'', jobId = ''j1'', level = ''success'',
          message = ''Fetched https://example.com/'', timestamp = Some 1700000005000,
          meta = None\<rparr>,
        \<lparr>log_id = ''j1-1-1700000000'', jobId = ''j1'', level = ''info'',
          message = ''Starting crawl'', timestamp = Some 1700000000000, meta = None\<rparr>]
   \<and> jobs (snd (getJobLogs sampleNumText sampleToDate rev
            (okResponse (Some sampleBackendLogs)) ''j1'' sampleLogStore))
     = jobs sampleLogStore
   \<and> getJobLogs sampleNumText sampleToDate rev (okResponse (Some sampleBackendLogs)) ''j1''
        (snd (getJobLogs sampleNumText sampleToDate rev
            (okResponse (Some sampleBackendLogs)) ''j1'' sampleLogStore))
      = (fst (getJobLogs sampleNumText sampleToDate rev
            (okResponse (Some sampleBackendLogs)) ''j1'' sampleLogStore),
         snd (getJobLogs sampleNumText sampleToDate rev
            (okResponse (Some sampleBackendLogs)) ''j1'' sampleLogStore))"
proof -
  let ?w' = "snd (getJobLogs sampleNumText sampleToDate rev
            (okResponse (Some sampleBackendLogs)) ''j1'' sampleLogStore)"
  let ?mine = "filter (\<lambda>x. jobId x = ''j1'') (logs ?w')"
  let ?e0 = "\<lparr>log_id = ''j1-0-1700000005'', jobId = ''j1'', level = ''success'',
          message = ''Fetched https://example.com/'', timestamp = Some 1700000005000,
          meta = None\<rparr>"
  let ?e1 = "\<lparr>log_id = ''j1-1-1700000000'', jobId = ''j1'', level = ''info'',
          message = ''Starting crawl'', timestamp = Some 1700000000000, meta = None\<rparr>"
  have a: "okResponse (Some sampleBackendLogs)
      = Response True 200 ''OK'' (Inr []) (Inr (Some sampleBackendLogs))"
    by (simp add: okResponse_def)
  note t = getJobLogs_replaces_job_logs
      [where numText = sampleNumText and toDate = sampleToDate and engineSort = rev
         and i = "''j1''" and w = sampleLogStore, OF a refl refl]
  note t_len = t [THEN conjunct1]
  note t_nth = t [THEN conjunct2, THEN conjunct1, rule_format]
  note t_logs = t [THEN conjunct2, THEN conjunct2, THEN conjunct1]
  note t_jobs = t [THEN conjunct2, THEN conjunct2, THEN conjunct2, THEN conjunct2, THEN conjunct1]
  note t_again = t [THEN conjunct2, THEN conjunct2, THEN conjunct2, THEN conjunct2, THEN conjunct2]
  have two: "length sampleBackendLogs = 2"
    by (simp add: sampleBackendLogs_def)
  have len: "length ?mine = 2"
    using t_len two by (rule trans)
  have r0: "\<lparr>log_id = ''j1'' @ ''-'' @ string_of_nat 0 @ ''-'' @ sampleNumText (ts (sampleBackendLogs ! 0)),
         jobId = ''j1'',
         level = (case b_level (sampleBackendLogs ! 0) of None \<Rightarrow> ''info'' | Some lv \<Rightarrow> lv),
         message = b_message (sampleBackendLogs ! 0),
         timestamp = sampleToDate (ts (sampleBackendLogs ! 0)),
         meta = None\<rparr> = ?e0"
    by (simp add: sampleBackendLogs_def sampleNumText_def sampleToDate_def string_of_int_def
        string_of_nat.simps digit_def)
  have r1: "\<lparr>log_id = ''j1'' @ ''-'' @ string_of_nat 1 @ ''-'' @ sampleNumText (ts (sampleBackendLogs ! 1)),
         jobId = ''j1'',
         level = (case b_level (sampleBackendLogs ! 1) of None \<Rightarrow> ''info'' | Some lv \<Rightarrow> lv),
         message = b_message (sampleBackendLogs ! 1),
         timestamp = sampleToDate (ts (sampleBackendLogs ! 1)),
         meta = None\<rparr> = ?e1"
    by (simp add: sampleBackendLogs_def sampleNumText_def sampleToDate_def string_of_int_def
        string_of_nat.simps digit_def)
  have l0: "0 < length sampleBackendLogs" and l1: "1 < length sampleBackendLogs"
    by (simp_all add: two)
  have n0: "?mine ! 0 = ?e0"
    using t_nth [OF l0] r0 by (rule trans)
  have n1: "?mine ! 1 = ?e1"
    using t_nth [OF l1] r1 by (rule trans)
  have mine: "?mine = [?e0, ?e1]"
  proof (rule nth_equalityI)
    show "length ?mine = length [?e0, ?e1]"
      by (simp only: len list.size)
  next
    fix k assume "k < length ?mine"
    then have "k < 2" by (simp only: len)
    then have "k = 0 \<or> k = 1" by auto
    then show "?mine ! k = [?e0, ?e1] ! k"
    proof
      assume "k = 0"
      then show ?thesis by (simp only: n0 nth_Cons_0)
    next
      assume "k = 1"
      then have k: "k = Suc 0" by simp
      have "?mine ! Suc 0 = ?e1" using n1 unfolding One_nat_def .
      then show ?thesis by (simp only: k nth_Cons_Suc nth_Cons_0)
    qed
  qed
  have others: "filter (\<lambda>x. jobId x \<noteq> ''j1'') (logs sampleLogStore)
      = [\<lparr>log_id = ''j2-0-1650000000'', jobId = ''j2'', level = ''warn'',
          message = ''other job'', timestamp = Some 1650000000000, meta = None\<rparr>]"
    by (simp add: sampleLogStore_def sampleStore_def)
  have logs: "logs ?w' = [\<lparr>log_id = ''j2-0-1650000000'', jobId = ''j2'', level = ''warn'',
          message = ''other job'', timestamp = Some 1650000000000, meta = None\<rparr>, ?e0, ?e1]"
  proof -
    have "logs ?w' = filter (\<lambda>x. jobId x \<noteq> ''j1'') (logs sampleLogStore) @ ?mine"
      by (rule t_logs)
    also have "\<dots> = [\<lparr>log_id = ''j2-0-1650000000'', jobId = ''j2'', level = ''warn'',
          message = ''other job'', timestamp = Some 1650000000000, meta = None\<rparr>] @ [?e0, ?e1]"
      by (simp only: mine others)
    finally show ?thesis by (simp only: append.simps)
  qed
  show ?thesis
    using logs t_jobs t_again by (intro conjI)
qed

text \<open>The call returns the fetched entries by time.\<close>

lemma getJobLogs_sample_returned:
  "map log_id (fst (getJobLogs sampleNumText sampleToDate rev
      (okResponse (Some sampleBackendLogs)) ''j1'' sampleLogStore))
     = [''j1-1-1700000000'', ''j1-0-1700000005'']"
  by (simp add: getJobLogs_def okResponse_def sampleBackendLogs_def sampleLogStore_def
      sampleStore_def mapLog_def sortByTime_def sampleNumText_def sampleToDate_def
      string_of_int_def string_of_nat.simps digit_def Let_def)

section \<open>The retry of postJSON\<close>

lemma postLoop_unrolled:
  "postLoop parse net url body 1 None =
     (case attemptOnce parse (net 1) 65000 of
        Inr data \<Rightarrow> (Inr data, [Request url body 65000])
      | Inl e1 \<Rightarrow>
          (case attemptOnce parse (net 2) 90000 of
             Inr data \<Rightarrow> (Inr data, [Request url body 65000, Wait 1500, Request url body 90000])
           | Inl e2 \<Rightarrow>
               (Inl e2, [Request url body 65000, Wait 1500, Request url body 90000, Wait 1500])))"
proof -
  have three: "postLoop parse net url body (Suc (Suc (Suc 0))) (Some e) = (Inl e, [])" for e
    by (subst postLoop.simps) simp
  have two: "postLoop parse net url body (Suc (Suc 0)) l =
     (case attemptOnce parse (net (Suc (Suc 0))) 90000 of
        Inr data \<Rightarrow> (Inr data, [Request url body 90000])
      | Inl e2 \<Rightarrow> (Inl e2, [Request url body 90000, Wait 1500]))" for l
    by (subst postLoop.simps) (simp add: three split: sum.splits)
  show ?thesis
    by (subst postLoop.simps) (simp add: two numeral_2_eq_2 split: sum.splits)
qed

lemma postJSON_unrolled:
  assumes "base \<noteq> []"
  shows "postJSON base parse net path body =
          (case attemptOnce parse (net 1) 65000 of
             Inr data \<Rightarrow> (Inr data, [Request (postUrl base path) body 65000])
           | Inl e1 \<Rightarrow>
               (case attemptOnce parse (net 2) 90000 of
                  Inr data \<Rightarrow>
                    (Inr data, [Request (postUrl base path) body 65000, Wait 1500,
                                Request (postUrl base path) body 90000])
                | Inl e2 \<Rightarrow>
                    (Inl e2, [Request (postUrl base path) body 65000, Wait 1500,
                              Request (postUrl base path) body 90000, Wait 1500])))"
  unfolding postJSON_def postLoop_unrolled using assms by simp

lemma postJSON_requests:
  "length (filter (\<lambda>ev. case ev of Request u b ms \<Rightarrow> True | Wait ms \<Rightarrow> False)
     (snd (postJSON base parse net path body))) \<le> 2"
proof (cases "base = []")
  case True
  then show ?thesis by (simp add: postJSON_def)
next
  case False
  show ?thesis
    unfolding postJSON_unrolled [OF False]
    by (simp split: sum.splits)
qed

lemma attemptOnce_yields:
  assumes "attemptYields parse p ms v"
  shows "attemptOnce parse p ms = Inr v"
  using assms
  by (cases p)
     (auto simp: attemptYields_def attemptOnce_def withTimeout_def Let_def split: sum.splits)

lemma attemptOnce_fails:
  assumes "attemptFailsWith p ms e"
  shows "attemptOnce parse p ms = Inl e"
  using assms
  by (cases p)
     (auto simp: attemptFailsWith_def attemptOnce_def withTimeout_def timeoutError_def
        en_dash_def Let_def split: sum.splits if_splits)

lemma attemptOnce_sound:
  "(case attemptOnce parse p ms of
      Inl e \<Rightarrow> attemptFailsWith p ms e
    | Inr v \<Rightarrow> attemptYields parse p ms v)"
  by (cases p)
     (auto simp: attemptFailsWith_def attemptYields_def attemptOnce_def withTimeout_def
        timeoutError_def en_dash_def Let_def split: sum.splits)

lemma attempt_fails_or_yields:
  "(\<exists>e. attemptFailsWith p ms e) \<noteq> (\<exists>v. attemptYields parse p ms v)"
proof (cases "attemptOnce parse p ms")
  case (Inl e)
  then have "attemptFailsWith p ms e"
    using attemptOnce_sound [where parse = parse and p = p and ms = ms] by simp
  moreover have "\<not> attemptYields parse p ms v" for v
    using attemptOnce_yields [of parse p ms v] Inl by auto
  ultimately show ?thesis by blast
next
  case (Inr v)
  then have "attemptYields parse p ms v"
    using attemptOnce_sound [where parse = parse and p = p and ms = ms] by simp
  moreover have "\<not> attemptFailsWith p ms e" for e
    using attemptOnce_fails [of p ms e parse] Inr by auto
  ultimately show ?thesis by blast
qed

text \<open>
  Claim C8: \<open>postJSON\<close> makes at most two requests (none when the base endpoint is not
  configured). Every attempt either fails (network error, timeout, unreadable body or
  response that is not 2xx) or yields a parsed body, never both. If the first attempt
  yields a body it is returned at once, after one request. If the first attempt fails,
  the call waits 1500 ms and makes exactly one more attempt, with the timeout of 90
  seconds: what that attempt yields is returned, and if it fails too, its error (for a
  response that is not 2xx, the message with the status, the status text and the body
  text) is raised after one more wait.
\<close>

theorem postJSON_retries_once:
  assumes "url = base @ (if take 1 path = ''/'' then path else ''/'' @ path)"
  shows "length (filter (\<lambda>ev. case ev of Request u b ms \<Rightarrow> True | Wait ms \<Rightarrow> False)
           (snd (postJSON base parse net path body))) \<le> 2
   \<and> (base = [] \<longrightarrow>
        postJSON base parse net path body = (Inl (Error ''VITE_API_URL is not set''), []))
   \<and> (base \<noteq> [] \<and> attemptYields parse (net 1) 65000 v \<longrightarrow>
        postJSON base parse net path body = (Inr v, [Request url body 65000]))
   \<and> (base \<noteq> [] \<and> attemptFailsWith (net 1) 65000 ea \<and> attemptYields parse (net 2) 90000 v \<longrightarrow>
        postJSON base parse net path body =
          (Inr v, [Request url body 65000, Wait 1500, Request url body 90000]))
   \<and> (base \<noteq> [] \<and> attemptFailsWith (net 1) 65000 ea \<and> attemptFailsWith (net 2) 90000 eb \<longrightarrow>
        postJSON base parse net path body =
          (Inl eb, [Request url body 65000, Wait 1500, Request url body 90000, Wait 1500]))
   \<and> (\<exists>e. attemptFailsWith p ms e) \<noteq> (\<exists>v. attemptYields parse p ms v)"
proof (intro conjI impI)
  show "length (filter (\<lambda>ev. case ev of Request u b ms \<Rightarrow> True | Wait ms \<Rightarrow> False)
           (snd (postJSON base parse net path body))) \<le> 2"
    by (rule postJSON_requests)
  show "postJSON base parse net path body = (Inl (Error ''VITE_API_URL is not set''), [])"
    if "base = []"
    using that by (simp add: postJSON_def)
  have u: "postUrl base path = url"
    using assms by (simp add: postUrl_def)
  show "postJSON base parse net path body = (Inr v, [Request url body 65000])"
    if h: "base \<noteq> [] \<and> attemptYields parse (net 1) 65000 v"
  proof -
    from h have b: "base \<noteq> []" and y: "attemptYields parse (net 1) 65000 v" by simp_all
    show ?thesis
      unfolding postJSON_unrolled [OF b] attemptOnce_yields [OF y] u by simp
  qed
  show "postJSON base parse net path body =
          (Inr v, [Request url body 65000, Wait 1500, Request url body 90000])"
    if h: "base \<noteq> [] \<and> attemptFailsWith (net 1) 65000 ea \<and> attemptYields parse (net 2) 90000 v"
  proof -
    from h have b: "base \<noteq> []" and f: "attemptFailsWith (net 1) 65000 ea"
      and y: "attemptYields parse (net 2) 90000 v" by simp_all
    show ?thesis
      unfolding postJSON_unrolled [OF b] attemptOnce_fails [OF f] attemptOnce_yields [OF y] u
      by simp
  qed
  show "postJSON base parse net path body =
          (Inl eb, [Request url body 65000, Wait 1500, Request url body 90000, Wait 1500])"
    if h: "base \<noteq> [] \<and> attemptFailsWith (net 1) 65000 ea \<and> attemptFailsWith (net 2) 90000 eb"
  proof -
    from h have b: "base \<noteq> []" and f: "attemptFailsWith (net 1) 65000 ea"
      and g: "attemptFailsWith (net 2) 90000 eb" by simp_all
    show ?thesis
      unfolding postJSON_unrolled [OF b] attemptOnce_fails [OF f] attemptOnce_fails [OF g] u
      by simp
  qed
  show "(\<exists>e. attemptFailsWith p ms e) \<noteq> (\<exists>v. attemptYields parse p ms v)"
    by (rule attempt_fails_or_yields)
qed

text \<open>
  On the three sample networks: a late answer and then a 503 raise the HTTP error after
  two requests and two waits; a rejected fetch and then a good answer return the parsed
  body after two requests and one wait; a good answer is returned after one request.
\<close>

theorem postJSON_retries_once_witness:
  "postJSON ''https://api.example'' sampleParse sampleNet ''crawl'' ''{}''
     = (Inl (Error (''HTTP 503 Service Unavailable '' @ [CHR 0xE2, CHR 0x80, CHR 0x93]
                      @ '' waking up'')),
        [Request ''https://api.example/crawl'' ''{}'' 65000, Wait 1500,
         Request ''https://api.example/crawl'' ''{}'' 90000, Wait 1500])
   \<and> postJSON ''https://api.example'' sampleParse sampleNetRecovering ''crawl'' ''{}''
     = (Inr (Some ''{}''),
        [Request ''https://api.example/crawl'' ''{}'' 65000, Wait 1500,
         Request ''https://api.example/crawl'' ''{}'' 90000])
   \<and> postJSON ''https://api.example'' sampleParse sampleNetHealthy ''crawl'' ''{}''
     = (Inr (Some ''{}''), [Request ''https://api.example/crawl'' ''{}'' 65000])"
proof -
  have url: "''https://api.example/crawl''
      = ''https://api.example'' @ (if take 1 ''crawl'' = ''/'' then ''crawl'' else ''/'' @ ''crawl'')"
    by simp
  have b: "''https://api.example'' \<noteq> []" by simp
  have late: "attemptFailsWith (sampleNet 1) 65000 (Error ''Timeout after 65000ms'')"
    by (simp add: attemptFailsWith_def sampleNet_def string_of_nat.simps digit_def)
  have unavailable: "attemptFailsWith (sampleNet 2) 90000
      (Error (''HTTP 503 Service Unavailable '' @ [CHR 0xE2, CHR 0x80, CHR 0x93] @ '' waking up''))"
    by (simp add: attemptFailsWith_def sampleNet_def string_of_nat.simps digit_def)
  have rejected: "attemptFailsWith (sampleNetRecovering 1) 65000 (TypeError ''Failed to fetch'')"
    by (simp add: attemptFailsWith_def sampleNetRecovering_def)
  have recovered: "attemptYields sampleParse (sampleNetRecovering 2) 90000 (Some ''{}'')"
    by (simp add: attemptYields_def sampleNetRecovering_def okReply_def sampleParse_def)
  have healthy: "attemptYields sampleParse (sampleNetHealthy 1) 65000 (Some ''{}'')"
    by (simp add: attemptYields_def sampleNetHealthy_def okReply_def sampleParse_def)
  have one: "postJSON ''https://api.example'' sampleParse sampleNet ''crawl'' ''{}''
     = (Inl (Error (''HTTP 503 Service Unavailable '' @ [CHR 0xE2, CHR 0x80, CHR 0x93]
                      @ '' waking up'')),
        [Request ''https://api.example/crawl'' ''{}'' 65000, Wait 1500,
         Request ''https://api.example/crawl'' ''{}'' 90000, Wait 1500])"
    by (rule postJSON_retries_once
          [OF url, where parse = sampleParse and body = "''{}''" and net = sampleNet
             and ea = "Error ''Timeout after 65000ms''"
             and eb = "Error (''HTTP 503 Service Unavailable '' @ [CHR 0xE2, CHR 0x80, CHR 0x93]
                        @ '' waking up'')",
           THEN conjunct2, THEN conjunct2, THEN conjunct2, THEN conjunct2, THEN conjunct1,
           THEN mp, OF conjI [OF b conjI [OF late unavailable]]])
  have two: "postJSON ''https://api.example'' sampleParse sampleNetRecovering ''crawl'' ''{}''
     = (Inr (Some ''{}''),
        [Request ''https://api.example/crawl'' ''{}'' 65000, Wait 1500,
         Request ''https://api.example/crawl'' ''{}'' 90000])"
    by (rule postJSON_retries_once
          [OF url, where parse = sampleParse and body = "''{}''" and net = sampleNetRecovering
             and ea = "TypeError ''Failed to fetch''" and v = "Some ''{}''",
           THEN conjunct2, THEN conjunct2, THEN conjunct2, THEN conjunct1,
           THEN mp, OF conjI [OF b conjI [OF rejected recovered]]])
  have three: "postJSON ''https://api.example'' sampleParse sampleNetHealthy ''crawl'' ''{}''
     = (Inr (Some ''{}''), [Request ''https://api.example/crawl'' ''{}'' 65000])"
    by (rule postJSON_retries_once
          [OF url, where parse = sampleParse and body = "''{}''" and net = sampleNetHealthy
             and v = "Some ''{}''",
           THEN conjunct2, THEN conjunct2, THEN conjunct1,
           THEN mp, OF conjI [OF b healthy]])
  from one two three show ?thesis by (intro conjI)
qed

end
